theory Spec2Isabelle
  imports Main "HOL-Library.Monad_Syntax"
begin

section \<open>Python values, exceptions and results\<close>

text \<open>
  An exception object is its class, given by the names along the method resolution order
  (the class itself first, \<open>BaseException\<close> last), and its message, which is what
  \<open>str(e)\<close> prints. \<open>except C as e\<close> catches \<open>e\<close> exactly when \<open>C\<close> is on that order.
\<close>

datatype exn = Exn (mro: "string list") (msg: string)

definition isinstance :: "exn \<Rightarrow> string \<Rightarrow> bool" where
  "isinstance e c = (c \<in> set (mro e))"

definition class_name :: "exn \<Rightarrow> string" where
  "class_name e = (case mro e of [] \<Rightarrow> ''BaseException'' | c # _ \<Rightarrow> c)"

definition TypeError :: "string \<Rightarrow> exn" where
  "TypeError m = Exn [''TypeError'', ''Exception'', ''BaseException''] m"

definition AttributeError :: "string \<Rightarrow> exn" where
  "AttributeError m = Exn [''AttributeError'', ''Exception'', ''BaseException''] m"

definition quoted :: "string \<Rightarrow> string" where
  "quoted s = CHR 0x27 # s @ [CHR 0x27]"

definition KeyboardInterrupt :: exn where
  "KeyboardInterrupt = Exn [''KeyboardInterrupt'', ''BaseException''] []"

text \<open>A call either returns a value or raises.\<close>

datatype 'a result = Returned 'a | Raised exn

text \<open>
  \<open>datetime.time(datetime.now())\<close> is a \<open>datetime.time\<close> object: hour, minute, second
  and microsecond of the clock reading.
\<close>

datatype pytime = Time nat nat nat nat

text \<open>
  A Python \<open>str\<close> is a sequence of code points, each below \<open>0x110000\<close>; the surrogates
  \<open>0xD800..0xDFFF\<close> may occur in it like any other. \<open>str\<close> turns a literal of the
  source into one. Text that is ASCII by construction (class names, messages, topics,
  the output of \<open>json.dumps\<close>) stays an Isabelle string.
\<close>

type_synonym pystr = "nat list"

definition str :: "string \<Rightarrow> pystr" where
  "str s = map of_char s"

definition is_str :: "pystr \<Rightarrow> bool" where
  "is_str s = list_all (\<lambda>c. c < 0x110000) s"

text \<open>
  The Python values that the pipeline hands around. A dictionary literal keeps its
  insertion order.
\<close>

datatype pyval =
    PNone
  | PInt int
  | PStr pystr
  | PDict "(pystr \<times> pyval) list"
  | PTime pytime
  | PExc exn

section \<open>\<open>json.dumps\<close>\<close>

text \<open>
  The standard encoder with its default options (\<open>ensure_ascii\<close>, separators \<open>', '\<close>
  and \<open>': '\<close>). Inside a string, the quote and the backslash are escaped, the five
  control characters with a short form take it, and the other characters of
  \<open>' '..'~'\<close> are copied. Every other code point below \<open>0x10000\<close> becomes \<open>\uxxxx\<close>
  with four lower-case hexadecimal digits, and a code point from \<open>0x10000\<close> on becomes
  the two escapes of its surrogate pair (\<open>0xd800 | ((n >> 10) & 0x3ff)\<close> and
  \<open>0xdc00 | (n & 0x3ff)\<close> for \<open>n\<close> the code point less \<open>0x10000\<close>).
\<close>

definition hexdigit :: "nat \<Rightarrow> char" where
  "hexdigit n = (if n < 10 then char_of (48 + n) else char_of (87 + n))"

definition hex4 :: "nat \<Rightarrow> string" where
  "hex4 n =
    [hexdigit (n div 4096 mod 16), hexdigit (n div 256 mod 16),
     hexdigit (n div 16 mod 16), hexdigit (n mod 16)]"

definition u_escape :: "nat \<Rightarrow> string" where
  "u_escape n = CHR 0x5C # CHR ''u'' # hex4 n"

definition high_surrogate :: "nat \<Rightarrow> nat" where
  "high_surrogate c = 0xD800 + (c - 0x10000) div 1024 mod 1024"

definition low_surrogate :: "nat \<Rightarrow> nat" where
  "low_surrogate c = 0xDC00 + (c - 0x10000) mod 1024"

definition esc_char :: "nat \<Rightarrow> string" where
  "esc_char c =
    (if c = 0x22 then [CHR 0x5C, CHR 0x22]
     else if c = 0x5C then [CHR 0x5C, CHR 0x5C]
     else if c = 0x0A then [CHR 0x5C, CHR ''n'']
     else if c = 0x0D then [CHR 0x5C, CHR ''r'']
     else if c = 0x09 then [CHR 0x5C, CHR ''t'']
     else if c = 0x08 then [CHR 0x5C, CHR ''b'']
     else if c = 0x0C then [CHR 0x5C, CHR ''f'']
     else if 0x20 \<le> c \<and> c \<le> 0x7E then [char_of c]
     else if c < 0x10000 then u_escape c
     else u_escape (high_surrogate c) @ u_escape (low_surrogate c))"

definition escape :: "pystr \<Rightarrow> string" where
  "escape s = concat (map esc_char s)"

definition json_str :: "pystr \<Rightarrow> string" where
  "json_str s = CHR 0x22 # escape s @ [CHR 0x22]"

text \<open>
  \<open>repr\<close> of an integer: decimal digits, with a minus sign below zero. The conversion
  raises \<open>ValueError\<close> when the number has more digits than
  \<open>sys.int_max_str_digits\<close>, 4300 unless changed, which the source does not do.
\<close>

fun dec_digits :: "nat \<Rightarrow> string" where
  "dec_digits n =
    (if n < 10 then [char_of (48 + n)]
     else dec_digits (n div 10) @ [char_of (48 + n mod 10)])"

declare dec_digits.simps [simp del]

definition int_max_str_digits :: nat where
  "int_max_str_digits = 4300"

definition ValueError :: "string \<Rightarrow> exn" where
  "ValueError m = Exn [''ValueError'', ''Exception'', ''BaseException''] m"

definition too_many_digits :: exn where
  "too_many_digits =
    ValueError (''Exceeds the limit (4300 digits) for integer string conversion; ''
      @ ''use sys.set_int_max_str_digits() to increase the limit'')"

definition str_int :: "int \<Rightarrow> exn + string" where
  "str_int i =
    (if int_max_str_digits < length (dec_digits (nat \<bar>i\<bar>)) then Inl too_many_digits
     else if i < 0 then Inr (CHR ''-'' # dec_digits (nat \<bar>i\<bar>))
     else Inr (dec_digits (nat \<bar>i\<bar>)))"

definition not_serializable :: "string \<Rightarrow> exn" where
  "not_serializable cls = TypeError (''Object of type '' @ cls @ '' is not JSON serializable'')"

text \<open>
  The encoder walks the value in order and raises at the first object it cannot encode:
  \<open>TypeError\<close> for a \<open>datetime.time\<close> or an exception instance, \<open>ValueError\<close> for an
  integer with too many digits.
\<close>

fun encode :: "pyval \<Rightarrow> exn + string"
  and encode_items :: "(pystr \<times> pyval) list \<Rightarrow> exn + string" where
  "encode PNone = Inr ''null''"
| "encode (PInt i) = str_int i"
| "encode (PStr s) = Inr (json_str s)"
| "encode (PDict kvs) =
    (case encode_items kvs of
       Inl e \<Rightarrow> Inl e
     | Inr body \<Rightarrow> Inr (''{'' @ body @ ''}''))"
| "encode (PTime t) = Inl (not_serializable ''time'')"
| "encode (PExc e) = Inl (not_serializable (class_name e))"
| "encode_items [] = Inr []"
| "encode_items ((k, v) # kvs) =
    (case encode v of
       Inl e \<Rightarrow> Inl e
     | Inr s \<Rightarrow>
        (if kvs = [] then Inr (json_str k @ '': '' @ s)
         else (case encode_items kvs of
                 Inl e \<Rightarrow> Inl e
               | Inr rest \<Rightarrow> Inr (json_str k @ '': '' @ s @ '', '' @ rest))))"

definition json_dumps :: "pyval \<Rightarrow> string result" where
  "json_dumps v = (case encode v of Inl e \<Rightarrow> Raised e | Inr s \<Rightarrow> Returned s)"

section \<open>The domain models (\<open>social_network/models.py\<close>)\<close>

text \<open>
  \<open>BaseModel.__init__\<close> reads the clock twice; the two readings are the arguments
  \<open>c\<close> and \<open>u\<close> of every constructor below. The private attributes \<open>__x\<close> of a
  class \<open>K\<close> are the fields \<open>K_x\<close>.
\<close>

record BaseModel =
  created_at :: pytime
  updated_at :: pytime

record User = BaseModel +
  User_username :: pystr
  User_password :: pystr
  User_email :: pystr

definition User_init :: "pytime \<Rightarrow> pytime \<Rightarrow> pystr \<Rightarrow> pystr \<Rightarrow> pystr \<Rightarrow> User" where
  "User_init c u username password email =
    \<lparr>created_at = c, updated_at = u,
     User_username = username, User_password = password, User_email = email\<rparr>"

definition get_username :: "User \<Rightarrow> pystr" where
  "get_username self = User_username self"

definition get_email :: "User \<Rightarrow> pystr" where
  "get_email self = User_email self"

definition User_data :: "User \<Rightarrow> pyval" where
  "User_data self =
    PDict [(str ''username'', PStr (User_username self)),
           (str ''email'', PStr (User_email self))]"

definition User_response :: "User \<Rightarrow> string result" where
  "User_response self = json_dumps (User_data self)"

text \<open>\<open>bio\<close> and \<open>contact\<close> default to \<open>None\<close>.\<close>

record Profile = BaseModel +
  Profile_user :: User
  Profile_first_name :: pystr
  Profile_last_name :: pystr
  Profile_bio :: "pystr option"
  Profile_contact :: "int option"

definition Profile_init ::
  "pytime \<Rightarrow> pytime \<Rightarrow> User \<Rightarrow> pystr \<Rightarrow> pystr \<Rightarrow> pystr option \<Rightarrow> int option \<Rightarrow> Profile" where
  "Profile_init c u user first_name last_name bio contact =
    \<lparr>created_at = c, updated_at = u,
     Profile_user = user, Profile_first_name = first_name, Profile_last_name = last_name,
     Profile_bio = bio, Profile_contact = contact\<rparr>"

definition str_or_None :: "pystr option \<Rightarrow> pyval" where
  "str_or_None x = (case x of None \<Rightarrow> PNone | Some s \<Rightarrow> PStr s)"

definition int_or_None :: "int option \<Rightarrow> pyval" where
  "int_or_None x = (case x of None \<Rightarrow> PNone | Some i \<Rightarrow> PInt i)"

definition Profile_data :: "Profile \<Rightarrow> pyval" where
  "Profile_data self =
    PDict [(str ''user'', PDict [(str ''username'', PStr (get_username (Profile_user self))),
                             (str ''email'', PStr (get_email (Profile_user self)))]),
           (str ''first_name'', PStr (Profile_first_name self)),
           (str ''last_name'', PStr (Profile_last_name self)),
           (str ''bio'', str_or_None (Profile_bio self)),
           (str ''contact'', int_or_None (Profile_contact self))]"

definition Profile_response :: "Profile \<Rightarrow> string result" where
  "Profile_response self = json_dumps (Profile_data self)"

record Post = BaseModel +
  Post_user :: User
  Post_title :: pystr
  Post_content :: pystr
  Post_liked :: "User list"

definition Post_init :: "pytime \<Rightarrow> pytime \<Rightarrow> User \<Rightarrow> pystr \<Rightarrow> pystr \<Rightarrow> Post" where
  "Post_init c u user title content =
    \<lparr>created_at = c, updated_at = u,
     Post_user = user, Post_title = title, Post_content = content, Post_liked = []\<rparr>"

definition get_like_count :: "Post \<Rightarrow> nat" where
  "get_like_count self = length (Post_liked self)"

text \<open>\<open>add_like\<close> appends to the list the post owns: the post after the call.\<close>

definition add_like :: "Post \<Rightarrow> User \<Rightarrow> Post" where
  "add_like self user = self\<lparr>Post_liked := Post_liked self @ [user]\<rparr>"

definition Post_data :: "Post \<Rightarrow> pyval" where
  "Post_data self =
    PDict [(str ''user'', PDict [(str ''username'', PStr (get_username (Post_user self))),
                             (str ''email'', PStr (get_email (Post_user self)))]),
           (str ''title'', PStr (Post_title self)),
           (str ''content'', PStr (Post_content self)),
           (str ''like_count'', PInt (int (length (Post_liked self)))),
           (str ''created_at'', PTime (created_at self))]"

definition Post_response :: "Post \<Rightarrow> string result" where
  "Post_response self = json_dumps (Post_data self)"

record Comment = BaseModel +
  Comment_user :: User
  Comment_content :: pystr

definition Comment_init :: "pytime \<Rightarrow> pytime \<Rightarrow> User \<Rightarrow> pystr \<Rightarrow> Comment" where
  "Comment_init c u user content =
    \<lparr>created_at = c, updated_at = u, Comment_user = user, Comment_content = content\<rparr>"

definition Comment_data :: "Comment \<Rightarrow> pyval" where
  "Comment_data self =
    PDict [(str ''user'', PDict [(str ''username'', PStr (get_username (Comment_user self))),
                             (str ''email'', PStr (get_email (Comment_user self)))]),
           (str ''content'', PStr (Comment_content self))]"

definition Comment_response :: "Comment \<Rightarrow> string result" where
  "Comment_response self = json_dumps (Comment_data self)"

text \<open>The remaining methods of the four classes; each is a single \<open>return\<close>.\<close>

definition User_created_at :: "User \<Rightarrow> pytime" where
  "User_created_at self = created_at self"

definition User_update_at :: "User \<Rightarrow> pytime" where
  "User_update_at self = updated_at self"

definition Profile_get_user :: "Profile \<Rightarrow> User" where
  "Profile_get_user self = Profile_user self"

definition Profile_get_first_name :: "Profile \<Rightarrow> pystr" where
  "Profile_get_first_name self = Profile_first_name self"

definition Profile_get_last_name :: "Profile \<Rightarrow> pystr" where
  "Profile_get_last_name self = Profile_last_name self"

definition Profile_get_bio :: "Profile \<Rightarrow> pystr option" where
  "Profile_get_bio self = Profile_bio self"

definition Profile_get_contact :: "Profile \<Rightarrow> int option" where
  "Profile_get_contact self = Profile_contact self"

definition Post_get_user :: "Post \<Rightarrow> User" where
  "Post_get_user self = Post_user self"

definition Post_get_title :: "Post \<Rightarrow> pystr" where
  "Post_get_title self = Post_title self"

definition Comment_get_user :: "Comment \<Rightarrow> User" where
  "Comment_get_user self = Comment_user self"

definition Comment_get_content :: "Comment \<Rightarrow> pystr" where
  "Comment_get_content self = Comment_content self"

text \<open>
  The four classes are the variants of a domain event. A method call on an object gives
  what the method returns or raises, and the object as the call leaves it. Every
  method but \<open>add_like\<close> is a \<open>return\<close> of an expression that reads attributes and
  assigns none; \<open>add_like\<close> appends to the list of likes and returns \<open>None\<close>. Calling a
  method that the class does not have raises \<open>AttributeError\<close>.
\<close>

datatype domain_event =
    UserCreated User
  | ProfileCreated Profile
  | PostCreated Post
  | CommentCreated Comment

datatype method_call =
    Call_get_username | Call_get_email | Call_created_at | Call_update_at
  | Call_get_user | Call_get_first_name | Call_get_last_name | Call_get_bio
  | Call_get_contact | Call_get_title | Call_get_like_count | Call_get_content
  | Call_add_like User
  | Call_response

datatype returned = Val pyval | Obj User

fun class_of :: "domain_event \<Rightarrow> string" where
  "class_of (UserCreated _) = ''User''"
| "class_of (ProfileCreated _) = ''Profile''"
| "class_of (PostCreated _) = ''Post''"
| "class_of (CommentCreated _) = ''Comment''"

fun method_name :: "method_call \<Rightarrow> string" where
  "method_name Call_get_username = ''get_username''"
| "method_name Call_get_email = ''get_email''"
| "method_name Call_created_at = ''created_at''"
| "method_name Call_update_at = ''update_at''"
| "method_name Call_get_user = ''get_user''"
| "method_name Call_get_first_name = ''get_first_name''"
| "method_name Call_get_last_name = ''get_last_name''"
| "method_name Call_get_bio = ''get_bio''"
| "method_name Call_get_contact = ''get_contact''"
| "method_name Call_get_title = ''get_title''"
| "method_name Call_get_like_count = ''get_like_count''"
| "method_name Call_get_content = ''get_content''"
| "method_name (Call_add_like _) = ''add_like''"
| "method_name Call_response = ''response''"

definition no_such_method :: "domain_event \<Rightarrow> method_call \<Rightarrow> exn" where
  "no_such_method e m =
    AttributeError (quoted (class_of e) @ '' object has no attribute ''
      @ quoted (method_name m))"

definition returning_text :: "string result \<Rightarrow> returned result" where
  "returning_text r =
    (case r of Returned s \<Rightarrow> Returned (Val (PStr (str s))) | Raised e \<Rightarrow> Raised e)"

fun call :: "domain_event \<Rightarrow> method_call \<Rightarrow> returned result \<times> domain_event" where
  "call (UserCreated x) Call_get_username =
    (Returned (Val (PStr (get_username x))), UserCreated x)"
| "call (UserCreated x) Call_get_email =
    (Returned (Val (PStr (get_email x))), UserCreated x)"
| "call (UserCreated x) Call_created_at =
    (Returned (Val (PTime (User_created_at x))), UserCreated x)"
| "call (UserCreated x) Call_update_at =
    (Returned (Val (PTime (User_update_at x))), UserCreated x)"
| "call (UserCreated x) Call_response =
    (returning_text (User_response x), UserCreated x)"
| "call (ProfileCreated x) Call_get_user =
    (Returned (Obj (Profile_get_user x)), ProfileCreated x)"
| "call (ProfileCreated x) Call_get_first_name =
    (Returned (Val (PStr (Profile_get_first_name x))), ProfileCreated x)"
| "call (ProfileCreated x) Call_get_last_name =
    (Returned (Val (PStr (Profile_get_last_name x))), ProfileCreated x)"
| "call (ProfileCreated x) Call_get_bio =
    (Returned (Val (str_or_None (Profile_get_bio x))), ProfileCreated x)"
| "call (ProfileCreated x) Call_get_contact =
    (Returned (Val (int_or_None (Profile_get_contact x))), ProfileCreated x)"
| "call (ProfileCreated x) Call_response =
    (returning_text (Profile_response x), ProfileCreated x)"
| "call (PostCreated x) Call_get_user =
    (Returned (Obj (Post_get_user x)), PostCreated x)"
| "call (PostCreated x) Call_get_title =
    (Returned (Val (PStr (Post_get_title x))), PostCreated x)"
| "call (PostCreated x) Call_get_like_count =
    (Returned (Val (PInt (int (get_like_count x)))), PostCreated x)"
| "call (PostCreated x) (Call_add_like user) =
    (Returned (Val PNone), PostCreated (add_like x user))"
| "call (PostCreated x) Call_response =
    (returning_text (Post_response x), PostCreated x)"
| "call (CommentCreated x) Call_get_user =
    (Returned (Obj (Comment_get_user x)), CommentCreated x)"
| "call (CommentCreated x) Call_get_content =
    (Returned (Val (PStr (Comment_get_content x))), CommentCreated x)"
| "call (CommentCreated x) Call_response =
    (returning_text (Comment_response x), CommentCreated x)"
| "call e m = (Raised (no_such_method e m), e)"

definition after_call :: "domain_event \<Rightarrow> method_call \<Rightarrow> domain_event" where
  "after_call e m = snd (call e m)"

definition run_calls :: "domain_event \<Rightarrow> method_call list \<Rightarrow> domain_event" where
  "run_calls e ms = foldl after_call e ms"

fun event_created_at :: "domain_event \<Rightarrow> pytime" where
  "event_created_at (UserCreated x) = created_at x"
| "event_created_at (ProfileCreated x) = created_at x"
| "event_created_at (PostCreated x) = created_at x"
| "event_created_at (CommentCreated x) = created_at x"

fun serialize :: "domain_event \<Rightarrow> string result" where
  "serialize (UserCreated x) = User_response x"
| "serialize (ProfileCreated x) = Profile_response x"
| "serialize (PostCreated x) = Post_response x"
| "serialize (CommentCreated x) = Comment_response x"

fun added_likes :: "method_call list \<Rightarrow> User list" where
  "added_likes [] = []"
| "added_likes (Call_add_like user # cs) = user # added_likes cs"
| "added_likes (_ # cs) = added_likes cs"

section \<open>Reading the wire format back\<close>

text \<open>
  Modelled from the spec: the repository has no deserializer. The spec asks that
  \<open>deserialize(serialize(e))\<close> give back the fields the wire format carries, and the wire
  format is the JSON text that \<open>response\<close> writes. So \<open>deserialize\<close> reads that text, one
  reader for each variant, taking strings and integers the way the decoder of
  Python's \<open>json\<close> module does: inside a string a \<open>\uxxxx\<close> escape of a high surrogate
  that is followed by the escape of a low surrogate is read, with it, as one code point.
\<close>

definition unhexdigit :: "char \<Rightarrow> nat option" where
  "unhexdigit c =
    (if 48 \<le> (of_char c :: nat) \<and> (of_char c :: nat) \<le> 57 then Some (of_char c - 48)
     else if 97 \<le> (of_char c :: nat) \<and> (of_char c :: nat) \<le> 102 then Some (of_char c - 87)
     else if 65 \<le> (of_char c :: nat) \<and> (of_char c :: nat) \<le> 70 then Some (of_char c - 55)
     else None)"

definition unhex4 :: "char \<Rightarrow> char \<Rightarrow> char \<Rightarrow> char \<Rightarrow> nat option" where
  "unhex4 a b c d =
    (case unhexdigit a of None \<Rightarrow> None | Some w \<Rightarrow>
     case unhexdigit b of None \<Rightarrow> None | Some x \<Rightarrow>
     case unhexdigit c of None \<Rightarrow> None | Some y \<Rightarrow>
     case unhexdigit d of None \<Rightarrow> None | Some z \<Rightarrow>
       Some (((w * 16 + x) * 16 + y) * 16 + z))"

definition unescape_short :: "char \<Rightarrow> nat option" where
  "unescape_short e =
    (if e = CHR 0x22 then Some 0x22
     else if e = CHR 0x5C then Some 0x5C
     else if e = CHR ''/'' then Some 0x2F
     else if e = CHR ''b'' then Some 0x08
     else if e = CHR ''f'' then Some 0x0C
     else if e = CHR ''n'' then Some 0x0A
     else if e = CHR ''r'' then Some 0x0D
     else if e = CHR ''t'' then Some 0x09
     else None)"

definition is_high :: "nat \<Rightarrow> bool" where
  "is_high c = (0xD800 \<le> c \<and> c \<le> 0xDBFF)"

definition is_low :: "nat \<Rightarrow> bool" where
  "is_low c = (0xDC00 \<le> c \<and> c \<le> 0xDFFF)"

definition push_char :: "nat \<Rightarrow> (pystr \<times> string) option \<Rightarrow> (pystr \<times> string) option" where
  "push_char c r = (case r of None \<Rightarrow> None | Some (s, rest) \<Rightarrow> Some (c # s, rest))"

text \<open>The characters of a string up to its closing quote, and the text after it.\<close>

fun scan_chars :: "string \<Rightarrow> (pystr \<times> string) option" where
  "scan_chars [] = None"
| "scan_chars (c # r) =
    (if c = CHR 0x22 then Some ([], r)
     else if c = CHR 0x5C then
       (case r of
          [] \<Rightarrow> None
        | e # r1 \<Rightarrow>
           if e = CHR ''u'' then
             (case r1 of
                h1 # h2 # h3 # h4 # r2 \<Rightarrow>
                 (case unhex4 h1 h2 h3 h4 of
                    None \<Rightarrow> None
                  | Some uni \<Rightarrow>
                     if is_high uni then
                       (case r2 of
                          b # u # r3 \<Rightarrow>
                           if b = CHR 0x5C \<and> u = CHR ''u'' then
                             (case r3 of
                                l1 # l2 # l3 # l4 # r4 \<Rightarrow>
                                 (case unhex4 l1 l2 l3 l4 of
                                    None \<Rightarrow> None
                                  | Some uni2 \<Rightarrow>
                                     if is_low uni2
                                     then push_char
                                            (0x10000 + (uni - 0xD800) * 1024 + (uni2 - 0xDC00))
                                            (scan_chars r4)
                                     else push_char uni (scan_chars r2))
                              | _ \<Rightarrow> None)
                           else push_char uni (scan_chars r2)
                        | _ \<Rightarrow> push_char uni (scan_chars r2))
                     else push_char uni (scan_chars r2))
              | _ \<Rightarrow> None)
           else (case unescape_short e of
                   None \<Rightarrow> None
                 | Some n \<Rightarrow> push_char n (scan_chars r1)))
     else if (of_char c :: nat) < 0x20 then None
     else push_char (of_char c) (scan_chars r))"

declare scan_chars.simps [simp del]

definition scan_string :: "string \<Rightarrow> (pystr \<times> string) option" where
  "scan_string s =
    (case s of [] \<Rightarrow> None | c # r \<Rightarrow> if c = CHR 0x22 then scan_chars r else None)"

definition is_digit :: "char \<Rightarrow> bool" where
  "is_digit c = (48 \<le> (of_char c :: nat) \<and> (of_char c :: nat) \<le> 57)"

definition dec_value :: "string \<Rightarrow> nat" where
  "dec_value ds = foldl (\<lambda>a c. 10 * a + (of_char c - 48)) 0 ds"

definition scan_nat :: "string \<Rightarrow> (nat \<times> string) option" where
  "scan_nat s =
    (if takeWhile is_digit s = [] then None
     else Some (dec_value (takeWhile is_digit s), dropWhile is_digit s))"

definition scan_int :: "string \<Rightarrow> (int \<times> string) option" where
  "scan_int s =
    (case s of
       [] \<Rightarrow> None
     | c # r \<Rightarrow>
        if c = CHR ''-''
        then (case scan_nat r of None \<Rightarrow> None | Some (n, t) \<Rightarrow> Some (- int n, t))
        else (case scan_nat s of None \<Rightarrow> None | Some (n, t) \<Rightarrow> Some (int n, t)))"

text \<open>\<open>expect p s\<close>: the text \<open>s\<close> must start with \<open>p\<close>; what follows \<open>p\<close>.\<close>

fun expect :: "string \<Rightarrow> string \<Rightarrow> string option" where
  "expect [] s = Some s"
| "expect (p # ps) [] = None"
| "expect (p # ps) (c # s) = (if p = c then expect ps s else None)"

definition scan_str_or_null :: "string \<Rightarrow> (pystr option \<times> string) option" where
  "scan_str_or_null s =
    (case expect ''null'' s of
       Some r \<Rightarrow> Some (None, r)
     | None \<Rightarrow> (case scan_string s of None \<Rightarrow> None | Some (x, r) \<Rightarrow> Some (Some x, r)))"

definition scan_int_or_null :: "string \<Rightarrow> (int option \<times> string) option" where
  "scan_int_or_null s =
    (case expect ''null'' s of
       Some r \<Rightarrow> Some (None, r)
     | None \<Rightarrow> (case scan_int s of None \<Rightarrow> None | Some (x, r) \<Rightarrow> Some (Some x, r)))"

definition json_key :: "string \<Rightarrow> string" where
  "json_key k = json_str (str k) @ '': ''"

definition at_end :: "'a \<Rightarrow> string \<Rightarrow> 'a option" where
  "at_end x r = (if r = [] then Some x else None)"

text \<open>The embedded object of a user: \<open>{"username": ..., "email": ...}\<close>.\<close>

definition user_object :: "string \<Rightarrow> ((pystr \<times> pystr) \<times> string) option" where
  "user_object s = do {
     r \<leftarrow> expect (''{'' @ json_key ''username'') s;
     (username, r) \<leftarrow> scan_string r;
     r \<leftarrow> expect ('', '' @ json_key ''email'') r;
     (email, r) \<leftarrow> scan_string r;
     r \<leftarrow> expect ''}'' r;
     Some ((username, email), r)
   }"

text \<open>
  Modelled from the spec: \<open>deserialize\<close> for each of the three variants whose
  serialization can succeed, from the text to the fields it carries.
\<close>

definition deserialize_User :: "string \<Rightarrow> (pystr \<times> pystr) option" where
  "deserialize_User s = do {
     (user, r) \<leftarrow> user_object s;
     at_end user r
   }"

definition deserialize_Profile ::
  "string \<Rightarrow> ((pystr \<times> pystr) \<times> pystr \<times> pystr \<times> pystr option \<times> int option) option" where
  "deserialize_Profile s = do {
     r \<leftarrow> expect (''{'' @ json_key ''user'') s;
     (user, r) \<leftarrow> user_object r;
     r \<leftarrow> expect ('', '' @ json_key ''first_name'') r;
     (first_name, r) \<leftarrow> scan_string r;
     r \<leftarrow> expect ('', '' @ json_key ''last_name'') r;
     (last_name, r) \<leftarrow> scan_string r;
     r \<leftarrow> expect ('', '' @ json_key ''bio'') r;
     (bio, r) \<leftarrow> scan_str_or_null r;
     r \<leftarrow> expect ('', '' @ json_key ''contact'') r;
     (contact, r) \<leftarrow> scan_int_or_null r;
     r \<leftarrow> expect ''}'' r;
     at_end (user, first_name, last_name, bio, contact) r
   }"

definition deserialize_Comment :: "string \<Rightarrow> ((pystr \<times> pystr) \<times> pystr) option" where
  "deserialize_Comment s = do {
     r \<leftarrow> expect (''{'' @ json_key ''user'') s;
     (user, r) \<leftarrow> user_object r;
     r \<leftarrow> expect ('', '' @ json_key ''content'') r;
     (content, r) \<leftarrow> scan_string r;
     r \<leftarrow> expect ''}'' r;
     at_end (user, content) r
   }"

text \<open>
  The strings that can come back: those with no high surrogate immediately before a low
  one. The integers that can be written: those of at most \<open>int_max_str_digits\<close> digits.
\<close>

fun has_surrogate_pair :: "pystr \<Rightarrow> bool" where
  "has_surrogate_pair [] = False"
| "has_surrogate_pair [a] = False"
| "has_surrogate_pair (a # b # s) = (is_high a \<and> is_low b \<or> has_surrogate_pair (b # s))"

definition round_trips :: "pystr \<Rightarrow> bool" where
  "round_trips s = (is_str s \<and> \<not> has_surrogate_pair s)"

definition can_be_written :: "int option \<Rightarrow> bool" where
  "can_be_written x =
    (case x of None \<Rightarrow> True
     | Some i \<Rightarrow> length (dec_digits (nat \<bar>i\<bar>)) \<le> int_max_str_digits)"

definition User_round_trips :: "User \<Rightarrow> bool" where
  "User_round_trips u = (round_trips (User_username u) \<and> round_trips (User_email u))"

definition Profile_round_trips :: "Profile \<Rightarrow> bool" where
  "Profile_round_trips p =
    (User_round_trips (Profile_user p)
     \<and> round_trips (Profile_first_name p) \<and> round_trips (Profile_last_name p)
     \<and> (case Profile_bio p of None \<Rightarrow> True | Some b \<Rightarrow> round_trips b)
     \<and> can_be_written (Profile_contact p))"

definition Comment_round_trips :: "Comment \<Rightarrow> bool" where
  "Comment_round_trips c =
    (User_round_trips (Comment_user c) \<and> round_trips (Comment_content c))"

section \<open>Broker calls and what a run leaves behind\<close>

text \<open>
  The calls a run makes on the outside world, in order. \<open>ProducerExit\<close> and
  \<open>ConsumerExit\<close> are the calls of \<open>__exit__\<close> that end a \<open>with\<close> block: the release of
  the connection, which for the producer flushes.
\<close>

datatype event =
    GetProducer
  | Produce string pyval pyval
  | ProducerExit
  | GetConsumer
  | Subscribe "string list"
  | Poll nat
  | ConsumerExit
  | Print string
  | Sleep nat

text \<open>
  \<open>try: body except C as e: handler\<close>: the handler runs when the body raised an
  instance of \<open>C\<close>; what the handler raises itself leaves the statement.
\<close>

definition try_except ::
  "event list \<times> 'a result \<Rightarrow> string \<Rightarrow> (exn \<Rightarrow> event list \<times> 'a result) \<Rightarrow> event list \<times> 'a result" where
  "try_except body cls handler =
    (case body of
       (tr, Returned v) \<Rightarrow> (tr, Returned v)
     | (tr, Raised e) \<Rightarrow>
        (if isinstance e cls
         then (case handler e of (tr', r) \<Rightarrow> (tr @ tr', r))
         else (tr, Raised e)))"

text \<open>\<open>return json.dumps({'error': e})\<close>, the handler of the producer classes.\<close>

definition dumps_error :: "exn \<Rightarrow> pyval result" where
  "dumps_error e =
    (case json_dumps (PDict [(str ''error'', PExc e)]) of
       Returned s \<Rightarrow> Returned (PStr (str s))
     | Raised e' \<Rightarrow> Raised e')"

definition returning_str :: "string result \<Rightarrow> pyval result" where
  "returning_str r = (case r of Returned s \<Rightarrow> Returned (PStr (str s)) | Raised e \<Rightarrow> Raised e)"

section \<open>The producer (\<open>social_network/controller.py\<close>)\<close>

text \<open>
  What the broker client does is the environment of a call: whether \<open>app.get_producer()\<close>,
  \<open>producer.produce\<close> and the \<open>__exit__\<close> of the producer (its flush) raise, and what.
\<close>

record producer_env =
  get_producer_raises :: "exn option"
  produce_raises :: "exn option"
  producer_exit_raises :: "exn option"

text \<open>
  The \<open>with\<close> statement of \<open>push\<close>. \<open>__exit__\<close> is called once the block was entered,
  however the block ends; an exception of \<open>__exit__\<close> replaces the one of the block.
\<close>

definition with_producer ::
  "producer_env \<Rightarrow> string \<Rightarrow> pyval \<Rightarrow> pyval \<Rightarrow> event list \<times> pyval result" where
  "with_producer env topic key val =
    (case get_producer_raises env of
       Some e \<Rightarrow> ([GetProducer], Raised e)
     | None \<Rightarrow>
        (case produce_raises env of
           Some e \<Rightarrow>
            (case producer_exit_raises env of
               Some e' \<Rightarrow> ([GetProducer, Produce topic key val, ProducerExit], Raised e')
             | None \<Rightarrow> ([GetProducer, Produce topic key val, ProducerExit], Raised e))
         | None \<Rightarrow>
            (case producer_exit_raises env of
               Some e' \<Rightarrow> ([GetProducer, Produce topic key val, ProducerExit], Raised e')
             | None \<Rightarrow> ([GetProducer, Produce topic key val, ProducerExit], Returned PNone))))"

definition SendToKafka_push ::
  "producer_env \<Rightarrow> string \<Rightarrow> pyval \<Rightarrow> pyval \<Rightarrow> event list \<times> pyval result" where
  "SendToKafka_push env topic val key =
    try_except (with_producer env topic key val) ''Exception'' (\<lambda>e. ([], dumps_error e))"

text \<open>
  The objects the controller builds. \<open>now\<close> gives the successive readings of the clock,
  two for each object constructed.
\<close>

definition the_user :: "(nat \<Rightarrow> pytime) \<Rightarrow> User" where
  "the_user now =
    User_init (now 0) (now 1) (str ''Abhijeet'') (str ''#include'')
      (str ''abhijeetkumar3015@gmail'')"

definition UserProduce_create_user :: "(nat \<Rightarrow> pytime) \<Rightarrow> event list \<times> pyval result" where
  "UserProduce_create_user now =
    try_except ([], returning_str (User_response (the_user now)))
      ''Exception'' (\<lambda>e. ([], dumps_error e))"

definition ProfileProduce_create_profile :: "(nat \<Rightarrow> pytime) \<Rightarrow> event list \<times> pyval result" where
  "ProfileProduce_create_profile now =
    try_except
      ([], returning_str (Profile_response
             (Profile_init (now 2) (now 3) (the_user now) (str ''Abhijeet'')
                (str ''Kumar3015'') (Some (str ''This is my bio'')) (Some 7079840969))))
      ''Exception'' (\<lambda>e. ([], dumps_error e))"

text \<open>The \<open>try\<close> block of \<open>create_post\<close> ends without a \<open>return\<close>.\<close>

definition PostProduce_create_post :: "(nat \<Rightarrow> pytime) \<Rightarrow> event list \<times> pyval result" where
  "PostProduce_create_post now =
    try_except
      (let user = the_user now;
           val = Post_init (now 2) (now 3) user (str ''post'') (str ''This is my post'')
       in ([], Returned PNone))
      ''Exception'' (\<lambda>e. ([], dumps_error e))"

definition CommentProduce_make_comment :: "(nat \<Rightarrow> pytime) \<Rightarrow> event list \<times> pyval result" where
  "CommentProduce_make_comment now =
    ([], returning_str (Comment_response
           (Comment_init (now 2) (now 3) (the_user now) (str ''This is my comment''))))"

text \<open>
  \<open>self.push(topic=topic, value=self.create_...(), key=key)\<close> as a statement: the value
  is computed first, the result of \<open>push\<close> is dropped, and the method returns \<open>None\<close>.
\<close>

definition push_statement ::
  "producer_env \<Rightarrow> string \<Rightarrow> event list \<times> pyval result \<Rightarrow> pyval \<Rightarrow> event list \<times> pyval result" where
  "push_statement env topic created key =
    (case created of
       (tr, Raised e) \<Rightarrow> (tr, Raised e)
     | (tr, Returned v) \<Rightarrow>
        (case SendToKafka_push env topic v key of
           (tr', Raised e) \<Rightarrow> (tr @ tr', Raised e)
         | (tr', Returned _) \<Rightarrow> (tr @ tr', Returned PNone)))"

definition UserProduce_send_to_kafka ::
  "producer_env \<Rightarrow> (nat \<Rightarrow> pytime) \<Rightarrow> string \<Rightarrow> pyval \<Rightarrow> event list \<times> pyval result" where
  "UserProduce_send_to_kafka env now topic key =
    push_statement env topic (UserProduce_create_user now) key"

definition ProfileProduce_send_to_kafka ::
  "producer_env \<Rightarrow> (nat \<Rightarrow> pytime) \<Rightarrow> string \<Rightarrow> pyval \<Rightarrow> event list \<times> pyval result" where
  "ProfileProduce_send_to_kafka env now topic key =
    push_statement env topic (ProfileProduce_create_profile now) key"

definition PostProduce_send_to_kafka ::
  "producer_env \<Rightarrow> (nat \<Rightarrow> pytime) \<Rightarrow> string \<Rightarrow> pyval \<Rightarrow> event list \<times> pyval result" where
  "PostProduce_send_to_kafka env now topic key =
    push_statement env topic (PostProduce_create_post now) key"

definition CommentProduce_send_to_kafka ::
  "producer_env \<Rightarrow> (nat \<Rightarrow> pytime) \<Rightarrow> string \<Rightarrow> pyval \<Rightarrow> event list \<times> pyval result" where
  "CommentProduce_send_to_kafka env now topic key =
    push_statement env topic (CommentProduce_make_comment now) key"

section \<open>The consumer (\<open>social_network/consumer.py\<close>)\<close>

text \<open>
  \<open>Application(...)\<close> only holds the configuration and is taken to succeed, here and in
  the producer. What one turn of the loop meets: \<open>consumer.poll(1)\<close> raises, returns \<open>None\<close>, or
  returns a message whose \<open>value()\<close> raises or gives the payload (as the text that
  \<open>print\<close> shows); and \<open>time.sleep(10)\<close> ends or is interrupted by an exception.
\<close>

datatype poll_outcome =
    PollRaises exn
  | PollNone
  | PollMessage "exn + string"

record cycle =
  polled :: poll_outcome
  sleep_raises :: "exn option"

text \<open>What \<open>message.value()\<close> raises when \<open>message\<close> is \<open>None\<close>.\<close>

definition None_has_no_value :: exn where
  "None_has_no_value =
    AttributeError (quoted ''NoneType'' @ '' object has no attribute '' @ quoted ''value'')"

text \<open>The body of the inner \<open>try\<close>.\<close>

definition poll_and_print :: "poll_outcome \<Rightarrow> event list \<times> unit result" where
  "poll_and_print p =
    (case p of
       PollRaises e \<Rightarrow> ([Poll 1], Raised e)
     | PollNone \<Rightarrow>
        ([Poll 1, Print ''running consumer application.... '',
          Print ''Consumer is waiting for response : ''],
         Raised None_has_no_value)
     | PollMessage (Inl e) \<Rightarrow>
        ([Poll 1, Print ''running consumer application.... ''], Raised e)
     | PollMessage (Inr v) \<Rightarrow>
        ([Poll 1, Print ''running consumer application.... '', Print v], Returned ()))"

text \<open>
  One turn of \<open>while True\<close>. The second component is the exception that leaves the
  loop, if one does: the loop has no other way out.
\<close>

definition loop_body :: "cycle \<Rightarrow> event list \<times> exn option" where
  "loop_body c =
    (case try_except (poll_and_print (polled c)) ''Exception''
            (\<lambda>e. ([Print (''error: '' @ msg e @ '' '')], Returned ())) of
       (tr, Raised e) \<Rightarrow> (tr, Some e)
     | (tr, Returned _) \<Rightarrow>
        (case sleep_raises c of
           Some e \<Rightarrow> (tr @ [Sleep 10], Some e)
         | None \<Rightarrow> (tr @ [Sleep 10], None)))"

text \<open>
  The loop over the turns the environment supplies. \<open>None\<close>: every turn supplied was
  taken and the loop is polling on.
\<close>

fun consumer_loop :: "cycle list \<Rightarrow> event list \<times> exn option" where
  "consumer_loop [] = ([], None)"
| "consumer_loop (c # cs) =
    (case loop_body c of
       (tr, Some e) \<Rightarrow> (tr, Some e)
     | (tr, None) \<Rightarrow> (case consumer_loop cs of (tr', r) \<Rightarrow> (tr @ tr', r)))"

text \<open>
  The exception that the broker or the handling of the message raises in a turn, if any;
  a turn is an error turn when that exception is an \<open>Exception\<close> (which leaves out
  \<open>KeyboardInterrupt\<close> and \<open>SystemExit\<close>, the ways to cancel) and its sleep is not
  interrupted.
\<close>

fun raised_error :: "poll_outcome \<Rightarrow> exn option" where
  "raised_error (PollRaises e) = Some e"
| "raised_error (PollMessage (Inl e)) = Some e"
| "raised_error _ = None"

definition error_cycle :: "cycle \<Rightarrow> bool" where
  "error_cycle c =
    (sleep_raises c = None \<and>
     (case raised_error (polled c) of Some e \<Rightarrow> isinstance e ''Exception'' | None \<Rightarrow> False))"

fun sleeps :: "event list \<Rightarrow> nat list" where
  "sleeps [] = []"
| "sleeps (Sleep d # tr) = d # sleeps tr"
| "sleeps (_ # tr) = sleeps tr"

record consumer_env =
  get_consumer_raises :: "exn option"
  subscribe_raises :: "exn option"
  consumer_exit_raises :: "exn option"

text \<open>
  The \<open>with\<close> statement of \<open>setup_consumer\<close>; \<open>None\<close> as a result means that the loop
  is still running after the turns supplied.
\<close>

definition with_consumer ::
  "consumer_env \<Rightarrow> cycle list \<Rightarrow> event list \<times> pyval result option" where
  "with_consumer env cs =
    (case get_consumer_raises env of
       Some e \<Rightarrow> ([GetConsumer], Some (Raised e))
     | None \<Rightarrow>
        (case subscribe_raises env of
           Some e \<Rightarrow>
            ([GetConsumer, Subscribe [''weather_data''], ConsumerExit],
             Some (Raised (case consumer_exit_raises env of Some e' \<Rightarrow> e' | None \<Rightarrow> e)))
         | None \<Rightarrow>
            (case consumer_loop cs of
               (tr, None) \<Rightarrow> ([GetConsumer, Subscribe [''weather_data'']] @ tr, None)
             | (tr, Some e) \<Rightarrow>
                ([GetConsumer, Subscribe [''weather_data'']] @ tr @ [ConsumerExit],
                 Some (Raised (case consumer_exit_raises env of Some e' \<Rightarrow> e' | None \<Rightarrow> e))))))"

definition setup_consumer ::
  "consumer_env \<Rightarrow> cycle list \<Rightarrow> event list \<times> pyval result option" where
  "setup_consumer env cs =
    (case with_consumer env cs of
       (tr, None) \<Rightarrow> (tr, None)
     | (tr, Some r) \<Rightarrow>
        (case try_except (tr, r) ''Exception''
                (\<lambda>e. ([Print (''error : '' @ '' '' @ msg e)], Returned PNone)) of
           (tr', r') \<Rightarrow> (tr', Some r')))"

text \<open>
  The module ends with the call \<open>setup_consumer()\<close>. The interpreter exits with status 0
  when the module body ends and with status 1 when an \<open>Exception\<close> leaves it; for
  \<open>SystemExit\<close> and \<open>KeyboardInterrupt\<close> the status depends on the exit code or the
  signal, which an \<open>exn\<close> does not hold (\<open>None\<close>).
\<close>

definition exit_status :: "pyval result \<Rightarrow> nat option" where
  "exit_status r =
    (case r of
       Returned _ \<Rightarrow> Some 0
     | Raised e \<Rightarrow> (if isinstance e ''Exception'' then Some 1 else None))"

section \<open>The weather fetch (\<open>social_network/test_kafka.py\<close>)\<close>

text \<open>
  \<open>requests.get\<close> raises or gives a response, whose \<open>json()\<close> raises or gives the
  decoded payload.
\<close>

datatype http_response = Response (json: "exn + pyval")

definition get_weather :: "exn + http_response \<Rightarrow> event list \<times> pyval result" where
  "get_weather requests_get =
    try_except
      (case requests_get of
         Inl e \<Rightarrow> ([], Raised e)
       | Inr response \<Rightarrow>
          (case json response of
             Inl e \<Rightarrow> ([], Raised e)
           | Inr payload \<Rightarrow> ([], Returned payload)))
      ''RequestException'' (\<lambda>e. ([], Returned (PExc e)))"

section \<open>Sample inputs\<close>

definition clock :: "nat \<Rightarrow> pytime" where
  "clock k = Time 9 30 0 k"

definition broker_down :: exn where
  "broker_down = Exn [''KafkaException'', ''Exception'', ''BaseException''] ''broker down''"

definition connection_error :: exn where
  "connection_error =
    Exn [''ConnectionError'', ''RequestException'', ''OSError'', ''Exception'',
         ''BaseException''] ''connection refused''"

definition decode_error :: exn where
  "decode_error =
    Exn [''JSONDecodeError'', ''ValueError'', ''Exception'', ''BaseException'']
      ''Expecting value''"

definition empty_poll :: cycle where
  "empty_poll = \<lparr>polled = PollNone, sleep_raises = None\<rparr>"

definition healthy_consumer :: consumer_env where
  "healthy_consumer =
    \<lparr>get_consumer_raises = None, subscribe_raises = None, consumer_exit_raises = None\<rparr>"

definition two_failures :: "cycle list" where
  "two_failures =
    [\<lparr>polled = PollRaises broker_down, sleep_raises = None\<rparr>,
     \<lparr>polled = PollMessage (Inl decode_error), sleep_raises = None\<rparr>]"

definition subscribe_fails :: consumer_env where
  "subscribe_fails =
    \<lparr>get_consumer_raises = None, subscribe_raises = Some broker_down,
     consumer_exit_raises = None\<rparr>"

definition alice :: "string \<Rightarrow> User" where
  "alice password =
    User_init (clock 0) (clock 1) (str ''alice'') (str password) (str ''a@x.com'')"

definition the_profile :: Profile where
  "the_profile =
    Profile_init (clock 2) (clock 3) (the_user clock) (str ''Abhijeet'') (str ''Kumar3015'')
      (Some (str ''This is my bio'')) (Some 7079840969)"

definition the_comment :: Comment where
  "the_comment = Comment_init (clock 2) (clock 3) (the_user clock) (str ''This is my comment'')"

text \<open>
  A user whose name is the one code point \<open>U+1F600\<close>, and one whose name is the two
  surrogates of that code point; a profile whose contact has 4301 digits.
\<close>

definition smiley :: User where
  "smiley = User_init (clock 0) (clock 1) [0x1F600] (str ''pw'') (str ''a@x.com'')"

definition two_surrogates :: User where
  "two_surrogates =
    User_init (clock 0) (clock 1) [0xD83D, 0xDE00] (str ''pw'') (str ''a@x.com'')"

definition long_contact :: Profile where
  "long_contact =
    Profile_init (clock 2) (clock 3) (the_user clock) (str ''Abhijeet'') (str ''Kumar3015'')
      None (Some (10 ^ int_max_str_digits))"

definition the_post :: Post where
  "the_post =
    Post_init (clock 2) (clock 3) (the_user clock) (str ''post'') (str ''This is my post'')"

section \<open>What the serialized events carry\<close>

text \<open>
  C7. Every event that embeds a user (Profile, Post, Comment) serializes without reading
  the password of that user: replacing the password by any other changes neither the
  dictionary handed to \<open>json.dumps\<close> nor the result of \<open>response\<close>, so two events that
  differ only in the password of the referenced user serialize to the same bytes.
\<close>

theorem password_never_serialized:
  "Profile_data (p\<lparr>Profile_user := (Profile_user p)\<lparr>User_password := pw\<rparr>\<rparr>) = Profile_data p
   \<and> Profile_response (p\<lparr>Profile_user := (Profile_user p)\<lparr>User_password := pw\<rparr>\<rparr>)
       = Profile_response p
   \<and> Post_data (q\<lparr>Post_user := (Post_user q)\<lparr>User_password := pw\<rparr>\<rparr>) = Post_data q
   \<and> Post_response (q\<lparr>Post_user := (Post_user q)\<lparr>User_password := pw\<rparr>\<rparr>)
       = Post_response q
   \<and> Comment_data (c\<lparr>Comment_user := (Comment_user c)\<lparr>User_password := pw\<rparr>\<rparr>)
       = Comment_data c
   \<and> Comment_response (c\<lparr>Comment_user := (Comment_user c)\<lparr>User_password := pw\<rparr>\<rparr>)
       = Comment_response c"
  by (cases p, cases q, cases c)
    (simp add: Profile_response_def Profile_data_def Post_response_def Post_data_def
      Comment_response_def Comment_data_def get_username_def get_email_def)

subsection \<open>Reading an escaped string back\<close>

lemma hex4_arith:
  fixes n :: nat
  assumes "n < 0x10000"
  shows "((n div 4096 mod 16 * 16 + n div 256 mod 16) * 16 + n div 16 mod 16) * 16 + n mod 16 = n"
proof -
  define m0 where "m0 = n mod 16"
  define d1 where "d1 = n div 16"
  define m1 where "m1 = d1 mod 16"
  define d2 where "d2 = d1 div 16"
  define m2 where "m2 = d2 mod 16"
  define d3 where "d3 = d2 div 16"
  have n: "n = 16 * d1 + m0" unfolding m0_def d1_def by simp
  have e1: "d1 = 16 * d2 + m1" unfolding m1_def d2_def by simp
  have e2: "d2 = 16 * d3 + m2" unfolding m2_def d3_def by simp
  have d2: "d2 = n div 256" unfolding d2_def d1_def by (simp add: div_mult2_eq [symmetric])
  have d3: "d3 = n div 4096" unfolding d3_def d2 by (simp add: div_mult2_eq [symmetric])
  from assms have g3: "n div 4096 mod 16 = d3" unfolding d3 by simp
  have g2: "n div 256 mod 16 = m2" unfolding m2_def d2 ..
  have g1: "n div 16 mod 16 = m1" unfolding m1_def d1_def ..
  have g0: "n mod 16 = m0" unfolding m0_def ..
  have "n = 16 * (16 * (16 * d3 + m2) + m1) + m0"
    by (metis n e1 e2)
  then have "((d3 * 16 + m2) * 16 + m1) * 16 + m0 = n" by simp
  then show ?thesis unfolding g3 g2 g1 g0 .
qed


lemma unhexdigit_hexdigit: "n < 16 \<Longrightarrow> unhexdigit (hexdigit n) = Some n"
  by (simp add: unhexdigit_def hexdigit_def)

lemma hex4_unhex4:
  assumes "n < 0x10000"
  shows "\<exists>a b c d. hex4 n = [a, b, c, d] \<and> unhex4 a b c d = Some n"
proof -
  have h3: "unhexdigit (hexdigit (n div 4096 mod 16)) = Some (n div 4096 mod 16)"
    by (rule unhexdigit_hexdigit) simp
  have h2: "unhexdigit (hexdigit (n div 256 mod 16)) = Some (n div 256 mod 16)"
    by (rule unhexdigit_hexdigit) simp
  have h1: "unhexdigit (hexdigit (n div 16 mod 16)) = Some (n div 16 mod 16)"
    by (rule unhexdigit_hexdigit) simp
  have h0: "unhexdigit (hexdigit (n mod 16)) = Some (n mod 16)"
    by (rule unhexdigit_hexdigit) simp
  have "unhex4 (hexdigit (n div 4096 mod 16)) (hexdigit (n div 256 mod 16))
          (hexdigit (n div 16 mod 16)) (hexdigit (n mod 16)) = Some n"
    by (simp only: unhex4_def h3 h2 h1 h0 option.case hex4_arith [OF assms])
  then show ?thesis unfolding hex4_def by blast
qed

lemma push_char_Some: "push_char c (Some (s, r)) = Some (c # s, r)"
  by (simp add: push_char_def)

lemma scan_quote: "scan_chars (CHR 0x22 # r) = Some ([], r)"
  by (subst scan_chars.simps) simp

lemma char_of_neq:
  fixes c :: nat
  assumes "c < 256" "c \<noteq> of_char k"
  shows "char_of c \<noteq> k"
proof
  assume "char_of c = k"
  then have "(of_char (char_of c) :: nat) = of_char k" by simp
  with assms show False by simp
qed

lemma scan_literal:
  assumes "0x20 \<le> c" "c \<le> 0x7E" "c \<noteq> 0x22" "c \<noteq> 0x5C"
  shows "scan_chars (char_of c # r) = push_char c (scan_chars r)"
proof -
  from assms have m: "c mod 256 = c" by simp
  from assms have q: "char_of c \<noteq> CHR 0x22" by (intro char_of_neq) simp_all
  from assms have b: "char_of c \<noteq> CHR 0x5C" by (intro char_of_neq) simp_all
  from m assms q b show ?thesis by (subst scan_chars.simps) simp
qed

lemma scan_short:
  assumes "e \<noteq> CHR ''u''" "unescape_short e = Some n"
  shows "scan_chars (CHR 0x5C # e # r) = push_char n (scan_chars r)"
  using assms by (subst scan_chars.simps) simp

lemma scan_u_not_high:
  assumes "unhex4 a b c d = Some uni" "\<not> is_high uni"
  shows "scan_chars (CHR 0x5C # CHR ''u'' # a # b # c # d # r) = push_char uni (scan_chars r)"
  using assms by (subst scan_chars.simps) simp

lemma scan_u_pair:
  assumes "unhex4 a b c d = Some h" "is_high h" "unhex4 a' b' c' d' = Some l" "is_low l"
  shows "scan_chars (CHR 0x5C # CHR ''u'' # a # b # c # d #
                     CHR 0x5C # CHR ''u'' # a' # b' # c' # d' # r)
         = push_char (0x10000 + (h - 0xD800) * 1024 + (l - 0xDC00)) (scan_chars r)"
  using assms by (subst scan_chars.simps) simp

lemma scan_u_lone_other:
  assumes "unhex4 a b c d = Some h" "x \<noteq> CHR 0x5C"
  shows "scan_chars (CHR 0x5C # CHR ''u'' # a # b # c # d # x # r)
         = push_char h (scan_chars (x # r))"
  using assms by (subst scan_chars.simps) (simp split: list.splits)

lemma scan_u_lone_short:
  assumes "unhex4 a b c d = Some h" "y \<noteq> CHR ''u''"
  shows "scan_chars (CHR 0x5C # CHR ''u'' # a # b # c # d # CHR 0x5C # y # r)
         = push_char h (scan_chars (CHR 0x5C # y # r))"
  using assms by (subst scan_chars.simps) simp

lemma scan_u_lone_u:
  assumes "unhex4 a b c d = Some h" "unhex4 a' b' c' d' = Some l" "\<not> is_low l"
  shows "scan_chars (CHR 0x5C # CHR ''u'' # a # b # c # d #
                     CHR 0x5C # CHR ''u'' # a' # b' # c' # d' # r)
         = push_char h (scan_chars (CHR 0x5C # CHR ''u'' # a' # b' # c' # d' # r))"
  using assms by (subst scan_chars.simps) simp


lemma u_escape_chars:
  assumes "n < 0x10000"
  shows "\<exists>a b c d. u_escape n = [CHR 0x5C, CHR ''u'', a, b, c, d] \<and> unhex4 a b c d = Some n"
  using hex4_unhex4 [OF assms] by (auto simp add: u_escape_def)

lemma scan_u_plain:
  assumes "n < 0x10000" "\<not> is_high n"
  shows "scan_chars (u_escape n @ r) = push_char n (scan_chars r)"
proof -
  from u_escape_chars [OF assms(1)] obtain a b c d
    where "u_escape n = [CHR 0x5C, CHR ''u'', a, b, c, d]" "unhex4 a b c d = Some n" by blast
  with assms(2) show ?thesis by (simp add: scan_u_not_high)
qed

lemma surrogates_of:
  assumes "0x10000 \<le> c" "c < 0x110000"
  shows "is_high (high_surrogate c)" "is_low (low_surrogate c)"
    "0x10000 + (high_surrogate c - 0xD800) * 1024 + (low_surrogate c - 0xDC00) = c"
proof -
  define n where "n = c - 0x10000"
  from assms have n: "n < 1024 * 1024" and c: "c = 0x10000 + n" by (simp_all add: n_def)
  from n have d: "n div 1024 < 1024" by (simp add: less_mult_imp_div_less)
  then have m: "n div 1024 mod 1024 = n div 1024" by simp
  have l: "n mod 1024 < 1024" by simp
  from d m show "is_high (high_surrogate c)"
    by (simp add: is_high_def high_surrogate_def n_def [symmetric])
  from l show "is_low (low_surrogate c)"
    by (simp add: is_low_def low_surrogate_def n_def [symmetric])
  have "n div 1024 * 1024 + n mod 1024 = n" by simp
  with m c show "0x10000 + (high_surrogate c - 0xD800) * 1024 + (low_surrogate c - 0xDC00) = c"
    by (simp add: high_surrogate_def low_surrogate_def n_def [symmetric])
qed

lemma high_low_disjoint: "is_high c \<Longrightarrow> \<not> is_low c"
  by (simp add: is_high_def is_low_def)

lemma scan_astral:
  assumes "0x10000 \<le> c" "c < 0x110000"
  shows "scan_chars (u_escape (high_surrogate c) @ u_escape (low_surrogate c) @ r)
         = push_char c (scan_chars r)"
proof -
  note s = surrogates_of [OF assms]
  from s(1) have "high_surrogate c < 0x10000" by (simp add: is_high_def)
  from u_escape_chars [OF this] obtain a b c' d
    where h: "u_escape (high_surrogate c) = [CHR 0x5C, CHR ''u'', a, b, c', d]"
      "unhex4 a b c' d = Some (high_surrogate c)" by blast
  from s(2) have "low_surrogate c < 0x10000" by (simp add: is_low_def)
  from u_escape_chars [OF this] obtain a' b' c'' d'
    where l: "u_escape (low_surrogate c) = [CHR 0x5C, CHR ''u'', a', b', c'', d']"
      "unhex4 a' b' c'' d' = Some (low_surrogate c)" by blast
  from scan_u_pair [OF h(2) s(1) l(2) s(2), of r] h(1) l(1) s(3) show ?thesis by simp
qed

text \<open>The shapes of an escaped code point.\<close>

lemma esc_char_cases:
  assumes "c < 0x110000"
  obtains (short) y where "esc_char c = [CHR 0x5C, y]" "y \<noteq> CHR ''u''"
      "unescape_short y = Some c"
    | (literal) "esc_char c = [char_of c]" "0x20 \<le> c" "c \<le> 0x7E" "c \<noteq> 0x22" "c \<noteq> 0x5C"
    | (bmp) "esc_char c = u_escape c" "c < 0x10000" "\<not> (0x20 \<le> c \<and> c \<le> 0x7E)"
    | (astral) "esc_char c = u_escape (high_surrogate c) @ u_escape (low_surrogate c)"
      "0x10000 \<le> c"
proof -
  consider "c = 0x22" | "c = 0x5C" | "c = 0x0A" | "c = 0x0D" | "c = 0x09" | "c = 0x08"
    | "c = 0x0C"
    | "c \<notin> {0x22, 0x5C, 0x0A, 0x0D, 0x09, 0x08, 0x0C}" "0x20 \<le> c \<and> c \<le> 0x7E"
    | "c \<notin> {0x22, 0x5C, 0x0A, 0x0D, 0x09, 0x08, 0x0C}" "\<not> (0x20 \<le> c \<and> c \<le> 0x7E)"
      "c < 0x10000"
    | "0x10000 \<le> c"
    by fastforce
  then show ?thesis
  proof cases
    case 1 then show ?thesis
      by (intro short [of "CHR 0x22"]) (simp_all add: esc_char_def unescape_short_def)
  next
    case 2 then show ?thesis
      by (intro short [of "CHR 0x5C"]) (simp_all add: esc_char_def unescape_short_def)
  next
    case 3 then show ?thesis
      by (intro short [of "CHR ''n''"]) (simp_all add: esc_char_def unescape_short_def)
  next
    case 4 then show ?thesis
      by (intro short [of "CHR ''r''"]) (simp_all add: esc_char_def unescape_short_def)
  next
    case 5 then show ?thesis
      by (intro short [of "CHR ''t''"]) (simp_all add: esc_char_def unescape_short_def)
  next
    case 6 then show ?thesis
      by (intro short [of "CHR ''b''"]) (simp_all add: esc_char_def unescape_short_def)
  next
    case 7 then show ?thesis
      by (intro short [of "CHR ''f''"]) (simp_all add: esc_char_def unescape_short_def)
  next
    case 8 then show ?thesis by (intro literal) (auto simp add: esc_char_def)
  next
    case 9 then show ?thesis by (intro bmp) (auto simp add: esc_char_def)
  next
    case 10 then show ?thesis by (intro astral) (auto simp add: esc_char_def)
  qed
qed


lemma scan_esc_not_high:
  assumes "c < 0x110000" "\<not> is_high c"
  shows "scan_chars (esc_char c @ r) = push_char c (scan_chars r)"
  using assms(1)
proof (cases c rule: esc_char_cases)
  case (short y)
  then show ?thesis by (simp add: scan_short)
next
  case literal
  then show ?thesis by (simp add: scan_literal)
next
  case bmp
  with assms(2) show ?thesis by (simp add: scan_u_plain)
next
  case astral
  with assms(1) show ?thesis by (simp add: scan_astral)
qed

lemma is_high_escape: "is_high c \<Longrightarrow> esc_char c = u_escape c"
  by (simp add: esc_char_def is_high_def)

lemma scan_esc_high_quote:
  assumes "is_high h"
  shows "scan_chars (esc_char h @ CHR 0x22 # r) = push_char h (scan_chars (CHR 0x22 # r))"
proof -
  from assms have "h < 0x10000" by (simp add: is_high_def)
  from u_escape_chars [OF this] obtain a b c d
    where "u_escape h = [CHR 0x5C, CHR ''u'', a, b, c, d]" "unhex4 a b c d = Some h" by blast
  with assms show ?thesis by (simp add: is_high_escape scan_u_lone_other)
qed

lemma scan_esc_high_next:
  assumes "is_high h" "c < 0x110000" "\<not> is_low c"
  shows "scan_chars (esc_char h @ esc_char c @ r) = push_char h (scan_chars (esc_char c @ r))"
proof -
  from assms have "h < 0x10000" by (simp add: is_high_def)
  from u_escape_chars [OF this] obtain a b c' d
    where h: "u_escape h = [CHR 0x5C, CHR ''u'', a, b, c', d]" "unhex4 a b c' d = Some h"
    by blast
  from assms(2) show ?thesis
  proof (cases c rule: esc_char_cases)
    case (short y)
    with assms(1) h show ?thesis by (simp add: is_high_escape scan_u_lone_short)
  next
    case literal
    then have "char_of c \<noteq> CHR 0x5C" by (intro char_of_neq) simp_all
    with assms(1) h literal show ?thesis by (simp add: is_high_escape scan_u_lone_other)
  next
    case bmp
    from u_escape_chars [OF bmp(2)] obtain k l m n
      where "u_escape c = [CHR 0x5C, CHR ''u'', k, l, m, n]" "unhex4 k l m n = Some c" by blast
    with assms(1,3) h bmp show ?thesis by (simp add: is_high_escape scan_u_lone_u)
  next
    case astral
    note s = surrogates_of [OF astral(2) assms(2)]
    from s(1) have "high_surrogate c < 0x10000" by (simp add: is_high_def)
    from u_escape_chars [OF this] obtain k l m n
      where "u_escape (high_surrogate c) = [CHR 0x5C, CHR ''u'', k, l, m, n]"
        "unhex4 k l m n = Some (high_surrogate c)" by blast
    with assms(1) h astral high_low_disjoint [OF s(1)] show ?thesis
      by (simp add: is_high_escape scan_u_lone_u)
  qed
qed

lemma scan_chars_escape:
  assumes "round_trips s"
  shows "scan_chars (escape s @ CHR 0x22 # r) = Some (s, r)"
  using assms
proof (induction s rule: has_surrogate_pair.induct)
  case 1
  show ?case by (simp add: escape_def scan_quote)
next
  case (2 a)
  then have a: "a < 0x110000" by (simp add: round_trips_def is_str_def)
  show ?case
  proof (cases "is_high a")
    case True
    from scan_esc_high_quote [OF True, of r] show ?thesis
      by (simp add: escape_def scan_quote push_char_Some)
  next
    case False
    from scan_esc_not_high [OF a False, of "CHR 0x22 # r"] show ?thesis
      by (simp add: escape_def scan_quote push_char_Some)
  qed
next
  case (3 a b s)
  then have a: "a < 0x110000" and b: "b < 0x110000" and np: "\<not> (is_high a \<and> is_low b)"
    and rest: "round_trips (b # s)"
    by (simp_all add: round_trips_def is_str_def)
  from "3.IH" rest have IH: "scan_chars (esc_char b @ escape s @ CHR 0x22 # r) = Some (b # s, r)"
    by (simp add: escape_def)
  show ?case
  proof (cases "is_high a")
    case True
    with np have "\<not> is_low b" by simp
    from scan_esc_high_next [OF True b this, of "escape s @ CHR 0x22 # r"] IH
    show ?thesis by (simp add: escape_def push_char_Some)
  next
    case False
    from scan_esc_not_high [OF a False, of "esc_char b @ escape s @ CHR 0x22 # r"] IH
    show ?thesis by (simp add: escape_def push_char_Some)
  qed
qed

lemma scan_string_json_str:
  "round_trips s \<Longrightarrow> scan_string (json_str s @ r) = Some (s, r)"
  by (simp add: scan_string_def json_str_def scan_chars_escape)

subsection \<open>Reading an integer back\<close>

lemma dec_digits_not_Nil: "dec_digits n \<noteq> []"
  by (subst dec_digits.simps) simp

lemma dec_digits_are_digits: "c \<in> set (dec_digits n) \<Longrightarrow> is_digit c"
proof (induction n rule: dec_digits.induct)
  case (1 n)
  have last: "is_digit (char_of (48 + k))" if "k < 10" for k :: nat
  proof -
    from that have "(48 + k) mod 256 = 48 + k" by simp
    with that show ?thesis by (simp add: is_digit_def)
  qed
  show ?case
  proof (cases "n < 10")
    case True
    with "1.prems" last [of n] show ?thesis by (subst (asm) dec_digits.simps) auto
  next
    case False
    with "1.prems" have "c \<in> set (dec_digits (n div 10)) \<or> c = char_of (48 + n mod 10)"
      by (subst (asm) dec_digits.simps) auto
    with False "1.IH" last [of "n mod 10"] show ?thesis by auto
  qed
qed

lemma dec_value_snoc: "dec_value (xs @ [c]) = 10 * dec_value xs + (of_char c - 48)"
  by (simp add: dec_value_def)

lemma dec_value_dec_digits: "dec_value (dec_digits n) = n"
proof (induction n rule: dec_digits.induct)
  case (1 n)
  show ?case
  proof (cases "n < 10")
    case True
    then have "(48 + n) mod 256 = 48 + n" by simp
    with True show ?thesis by (subst dec_digits.simps) (simp add: dec_value_def)
  next
    case False
    have "n mod 10 < 10" by simp
    then have "(48 + n mod 10) mod 256 = 48 + n mod 10" by simp
    with False "1.IH" show ?thesis by (subst dec_digits.simps) (simp add: dec_value_snoc)
  qed
qed

lemma scan_nat_dec_digits:
  assumes "\<not> is_digit x"
  shows "scan_nat (dec_digits n @ x # r) = Some (n, x # r)"
proof -
  have all: "\<forall>c\<in>set (dec_digits n). is_digit c" by (simp add: dec_digits_are_digits)
  with assms have t: "takeWhile is_digit (dec_digits n @ x # r) = dec_digits n"
    by (simp add: takeWhile_append2)
  from all assms have d: "dropWhile is_digit (dec_digits n @ x # r) = x # r"
    by (simp add: dropWhile_append2)
  show ?thesis by (simp add: scan_nat_def t d dec_digits_not_Nil dec_value_dec_digits)
qed

lemma dec_digits_head: "\<exists>d ds. dec_digits n = d # ds \<and> is_digit d"
proof (cases "dec_digits n")
  case Nil
  then show ?thesis by (simp add: dec_digits_not_Nil)
next
  case (Cons d ds)
  then have "d \<in> set (dec_digits n)" by simp
  then have "is_digit d" by (rule dec_digits_are_digits)
  with Cons show ?thesis by simp
qed

lemma scan_int_str_int:
  assumes "str_int i = Inr t" "\<not> is_digit x"
  shows "scan_int (t @ x # r) = Some (i, x # r)"
proof (cases "i < 0")
  case True
  with assms(1) have t: "t = CHR ''-'' # dec_digits (nat \<bar>i\<bar>)"
    by (simp add: str_int_def split: if_splits)
  from True show ?thesis by (simp add: t scan_int_def scan_nat_dec_digits [OF assms(2)])
next
  case False
  with assms(1) have t: "t = dec_digits (nat \<bar>i\<bar>)"
    by (simp add: str_int_def split: if_splits)
  from dec_digits_head [of "nat \<bar>i\<bar>"] obtain d ds
    where d: "dec_digits (nat \<bar>i\<bar>) = d # ds" "is_digit d" by blast
  then have "d \<noteq> CHR ''-''" by (auto simp add: is_digit_def)
  with scan_nat_dec_digits [OF assms(2), of "nat \<bar>i\<bar>" r] d False show ?thesis
    by (simp add: t scan_int_def)
qed

lemma str_int_head:
  assumes "str_int i = Inr t"
  shows "\<exists>d ds. t = d # ds \<and> d \<noteq> CHR ''n''"
proof -
  from dec_digits_head [of "nat \<bar>i\<bar>"] obtain d ds
    where d: "dec_digits (nat \<bar>i\<bar>) = d # ds" "is_digit d" by blast
  then have n: "d \<noteq> CHR ''n''" by (auto simp add: is_digit_def)
  show ?thesis
  proof (cases "i < 0")
    case True
    with assms have "t = CHR ''-'' # dec_digits (nat \<bar>i\<bar>)"
      by (simp add: str_int_def split: if_splits)
    then show ?thesis by simp
  next
    case False
    with assms have "t = dec_digits (nat \<bar>i\<bar>)"
      by (simp add: str_int_def split: if_splits)
    with d n show ?thesis by simp
  qed
qed

lemma expect_same: "expect (p @ q) (p @ s) = expect q s"
  by (induction p) simp_all

lemma expect_self: "expect p (p @ s) = Some s"
  using expect_same [of p "[]" s] by simp

lemma scan_str_or_null_null: "scan_str_or_null (''null'' @ r) = Some (None, r)"
  by (simp add: scan_str_or_null_def)

lemma scan_str_or_null_str:
  assumes "round_trips s"
  shows "scan_str_or_null (json_str s @ r) = Some (Some s, r)"
proof -
  have "expect ''null'' (json_str s @ r) = None" by (simp add: json_str_def)
  with assms show ?thesis by (simp add: scan_str_or_null_def scan_string_json_str)
qed

lemma scan_int_or_null_null: "scan_int_or_null (''null'' @ r) = Some (None, r)"
  by (simp add: scan_int_or_null_def)

lemma scan_int_or_null_int:
  assumes "str_int i = Inr t" "\<not> is_digit x"
  shows "scan_int_or_null (t @ x # r) = Some (Some i, x # r)"
proof -
  from str_int_head [OF assms(1)] obtain d ds where "t = d # ds" "d \<noteq> CHR ''n''" by blast
  then have "expect ''null'' (t @ x # r) = None" by simp
  with scan_int_str_int [OF assms] show ?thesis by (simp add: scan_int_or_null_def)
qed

lemma not_digit_brace: "\<not> is_digit CHR ''}''"
  by (simp add: is_digit_def)

lemma user_object_text:
  assumes "round_trips un" "round_trips em"
  shows "user_object
           (CHR ''{'' # json_str (str ''username'') @ '': '' @ json_str un @ '', ''
              @ json_str (str ''email'') @ '': '' @ json_str em @ CHR ''}'' # r)
         = Some ((un, em), r)"
  using assms
  by (simp add: user_object_def json_key_def expect_same scan_string_json_str)

subsection \<open>Round trip of the carried fields\<close>

lemma no_high_no_pair: "\<forall>c\<in>set s. \<not> is_high c \<Longrightarrow> \<not> has_surrogate_pair s"
  by (induction s rule: has_surrogate_pair.induct) simp_all

lemma round_trips_str: "round_trips (str s)"
proof -
  have small: "\<forall>c\<in>set (str s). c < 256" by (simp add: str_def)
  then have "is_str (str s)" by (auto simp add: is_str_def list_all_iff)
  moreover from small have "\<forall>c\<in>set (str s). \<not> is_high c" by (auto simp add: is_high_def)
  then have "\<not> has_surrogate_pair (str s)" by (rule no_high_no_pair)
  ultimately show ?thesis by (simp add: round_trips_def)
qed

lemma deserialize_User_response:
  assumes "User_round_trips u"
  shows "\<exists>s. User_response u = Returned s
     \<and> deserialize_User s = Some (User_username u, User_email u)"
proof -
  from assms have rt: "round_trips (User_username u)" "round_trips (User_email u)"
    by (simp_all add: User_round_trips_def)
  have "User_response u =
    Returned (CHR ''{'' # json_str (str ''username'') @ '': '' @ json_str (User_username u)
      @ '', '' @ json_str (str ''email'') @ '': '' @ json_str (User_email u) @ CHR ''}'' # [])"
    by (simp add: User_response_def User_data_def json_dumps_def)
  moreover from user_object_text [OF rt, of "[]"]
  have "deserialize_User (CHR ''{'' # json_str (str ''username'') @ '': ''
      @ json_str (User_username u) @ '', '' @ json_str (str ''email'') @ '': ''
      @ json_str (User_email u) @ CHR ''}'' # []) = Some (User_username u, User_email u)"
    by (simp add: deserialize_User_def at_end_def)
  ultimately show ?thesis by blast
qed

lemma deserialize_Comment_response:
  assumes "Comment_round_trips c"
  shows "\<exists>s. Comment_response c = Returned s
     \<and> deserialize_Comment s
        = Some ((User_username (Comment_user c), User_email (Comment_user c)),
                Comment_content c)"
proof -
  from assms have rt: "round_trips (User_username (Comment_user c))"
    "round_trips (User_email (Comment_user c))" and co: "round_trips (Comment_content c)"
    by (simp_all add: Comment_round_trips_def User_round_trips_def)
  let ?rest = "'', '' @ json_str (str ''content'') @ '': '' @ json_str (Comment_content c)
      @ ''}''"
  let ?text = "CHR ''{'' # json_str (str ''user'') @ '': '' @
      (CHR ''{'' # json_str (str ''username'') @ '': ''
         @ json_str (User_username (Comment_user c)) @ '', ''
         @ json_str (str ''email'') @ '': '' @ json_str (User_email (Comment_user c))
         @ CHR ''}'' # ?rest)"
  have "Comment_response c = Returned ?text"
    by (simp add: Comment_response_def Comment_data_def json_dumps_def get_username_def
        get_email_def)
  moreover from user_object_text [OF rt, of ?rest] co
  have "deserialize_Comment ?text
        = Some ((User_username (Comment_user c), User_email (Comment_user c)),
                Comment_content c)"
    by (simp add: deserialize_Comment_def json_key_def expect_same scan_string_json_str
        at_end_def)
  ultimately show ?thesis by blast
qed


lemma encode_str_or_None:
  "encode (str_or_None x) = Inr (case x of None \<Rightarrow> ''null'' | Some b \<Rightarrow> json_str b)"
  by (simp add: str_or_None_def split: option.splits)

lemma scan_str_or_null_text:
  assumes "case x of None \<Rightarrow> True | Some b \<Rightarrow> round_trips b"
  shows "scan_str_or_null ((case x of None \<Rightarrow> ''null'' | Some b \<Rightarrow> json_str b) @ r)
         = Some (x, r)"
proof (cases x)
  case None
  then show ?thesis using scan_str_or_null_null [of r] by simp
next
  case (Some b)
  with assms show ?thesis by (simp add: scan_str_or_null_str)
qed

lemma encode_int_or_None:
  assumes "can_be_written x"
  shows "\<exists>t. encode (int_or_None x) = Inr t
     \<and> (\<forall>r. scan_int_or_null (t @ CHR ''}'' # r) = Some (x, CHR ''}'' # r))"
proof (cases x)
  case None
  then show ?thesis using scan_int_or_null_null by (simp add: int_or_None_def)
next
  case (Some i)
  with assms obtain t where t: "str_int i = Inr t"
    by (cases "i < 0") (simp_all add: can_be_written_def str_int_def)
  from scan_int_or_null_int [OF t not_digit_brace] Some t show ?thesis
    by (simp add: int_or_None_def)
qed

lemma deserialize_Profile_response:
  assumes "Profile_round_trips p"
  shows "\<exists>s. Profile_response p = Returned s
     \<and> deserialize_Profile s
        = Some ((User_username (Profile_user p), User_email (Profile_user p)),
                Profile_first_name p, Profile_last_name p, Profile_bio p, Profile_contact p)"
proof -
  from assms have rt: "round_trips (User_username (Profile_user p))"
    "round_trips (User_email (Profile_user p))"
    and fn: "round_trips (Profile_first_name p)" and ln: "round_trips (Profile_last_name p)"
    and bio: "case Profile_bio p of None \<Rightarrow> True | Some b \<Rightarrow> round_trips b"
    and ct: "can_be_written (Profile_contact p)"
    by (simp_all add: Profile_round_trips_def User_round_trips_def)
  from encode_int_or_None [OF ct] obtain t
    where t: "encode (int_or_None (Profile_contact p)) = Inr t"
      and reads: "\<And>r. scan_int_or_null (t @ CHR ''}'' # r)
                     = Some (Profile_contact p, CHR ''}'' # r)"
    by blast
  let ?bio = "case Profile_bio p of None \<Rightarrow> ''null'' | Some b \<Rightarrow> json_str b"
  let ?rest = "'', '' @ json_str (str ''first_name'') @ '': ''
      @ json_str (Profile_first_name p)
      @ '', '' @ json_str (str ''last_name'') @ '': '' @ json_str (Profile_last_name p)
      @ '', '' @ json_str (str ''bio'') @ '': '' @ ?bio
      @ '', '' @ json_str (str ''contact'') @ '': '' @ t @ CHR ''}'' # []"
  let ?text = "CHR ''{'' # json_str (str ''user'') @ '': '' @
      (CHR ''{'' # json_str (str ''username'') @ '': ''
         @ json_str (User_username (Profile_user p)) @ '', ''
         @ json_str (str ''email'') @ '': '' @ json_str (User_email (Profile_user p))
         @ CHR ''}'' # ?rest)"
  have "Profile_response p = Returned ?text"
    by (simp add: Profile_response_def Profile_data_def json_dumps_def get_username_def
        get_email_def encode_str_or_None t)
  moreover from user_object_text [OF rt, of ?rest] fn ln
    scan_str_or_null_text [OF bio] reads [of "[]"]
  have "deserialize_Profile ?text
        = Some ((User_username (Profile_user p), User_email (Profile_user p)),
                Profile_first_name p, Profile_last_name p, Profile_bio p, Profile_contact p)"
    by (simp add: deserialize_Profile_def json_key_def expect_same scan_string_json_str
        at_end_def)
  ultimately show ?thesis by blast
qed

lemma digits_lower_bound: "10 ^ k \<le> n \<Longrightarrow> k < length (dec_digits n)"
proof (induction k arbitrary: n)
  case 0
  with dec_digits_not_Nil [of n] show ?case by (cases "dec_digits n") simp_all
next
  case (Suc k)
  have "(10::nat) \<le> 10 ^ Suc k" by simp
  from this Suc.prems have "10 \<le> n" by (rule order_trans)
  then have big: "\<not> n < 10" by simp
  from Suc.prems have "10 ^ k \<le> n div 10" by simp
  then have "k < length (dec_digits (n div 10))" by (rule Suc.IH)
  with big show ?case by (subst dec_digits.simps) simp
qed

lemma str_int_long: "str_int (10 ^ int_max_str_digits) = Inl too_many_digits"
proof -
  have a: "nat \<bar>10 ^ int_max_str_digits :: int\<bar> = 10 ^ int_max_str_digits"
    by (simp add: nat_power_eq)
  have b: "int_max_str_digits < length (dec_digits (10 ^ int_max_str_digits))"
    by (rule digits_lower_bound) simp
  show ?thesis unfolding str_int_def a using b by simp
qed

text \<open>
  C2, as the claim states it, fails, in four ways. Serializing the post that the
  controller builds does not succeed: \<open>created_at\<close> is a \<open>datetime.time\<close>, which
  \<open>json.dumps\<close> rejects. The serialized user carries neither the password nor a
  timestamp: two users that differ in the password serialize to the same text. A name
  that is one code point above \<open>0xFFFF\<close> and a name that is the two surrogates of that
  code point serialize to the same text. And a profile whose contact has more than 4300
  digits does not serialize: \<open>ValueError\<close>.
\<close>

theorem roundtrip_counterexample:
  "serialize (PostCreated the_post) = Raised (not_serializable ''time'')
   \<and> serialize (UserCreated (alice ''secret1'')) = serialize (UserCreated (alice ''secret2''))
   \<and> UserCreated (alice ''secret1'') \<noteq> UserCreated (alice ''secret2'')
   \<and> serialize (UserCreated smiley) = serialize (UserCreated two_surrogates)
   \<and> UserCreated smiley \<noteq> UserCreated two_surrogates
   \<and> serialize (ProfileCreated long_contact) = Raised too_many_digits"
proof (intro conjI)
  have "str_int 0 = Inr (dec_digits 0)"
    by (simp add: str_int_def dec_digits.simps int_max_str_digits_def)
  then show "serialize (PostCreated the_post) = Raised (not_serializable ''time'')"
    by (simp add: the_post_def Post_init_def Post_response_def Post_data_def json_dumps_def)
  show "serialize (UserCreated (alice ''secret1'')) = serialize (UserCreated (alice ''secret2''))"
    by (simp add: alice_def User_init_def User_response_def User_data_def)
  show "UserCreated (alice ''secret1'') \<noteq> UserCreated (alice ''secret2'')"
    by (simp add: alice_def User_init_def str_def)
  show "serialize (UserCreated smiley) = serialize (UserCreated two_surrogates)"
    by (simp add: smiley_def two_surrogates_def User_init_def User_response_def User_data_def
        json_dumps_def json_str_def escape_def esc_char_def high_surrogate_def
        low_surrogate_def)
  show "UserCreated smiley \<noteq> UserCreated two_surrogates"
    by (simp add: smiley_def two_surrogates_def User_init_def)
  show "serialize (ProfileCreated long_contact) = Raised too_many_digits"
    by (simp add: long_contact_def Profile_init_def Profile_response_def Profile_data_def
        json_dumps_def str_or_None_def int_or_None_def str_int_long)
qed

text \<open>
  C2, amended. Take a User, a Profile and a Comment in whose strings no high surrogate
  stands immediately before a low one, the contact of the Profile being \<open>None\<close> or of at
  most 4300 digits. Then serialization succeeds and \<open>deserialize\<close> gives back, from the
  serialized text, the fields the wire format carries: username and email of the
  user and, for a Profile, first name, last name, bio and contact, for a Comment, its
  content. The timestamps, and the password of a User, are not carried: changing them
  does not change the text.
\<close>

theorem deserialize_serialize_carried_fields:
  "(User_round_trips u \<longrightarrow>
      (\<exists>s. serialize (UserCreated u) = Returned s
          \<and> deserialize_User s = Some (User_username u, User_email u)))
   \<and> (Profile_round_trips p \<longrightarrow>
      (\<exists>s. serialize (ProfileCreated p) = Returned s
          \<and> deserialize_Profile s
             = Some ((User_username (Profile_user p), User_email (Profile_user p)),
                     Profile_first_name p, Profile_last_name p, Profile_bio p,
                     Profile_contact p)))
   \<and> (Comment_round_trips c \<longrightarrow>
      (\<exists>s. serialize (CommentCreated c) = Returned s
          \<and> deserialize_Comment s
             = Some ((User_username (Comment_user c), User_email (Comment_user c)),
                     Comment_content c)))
   \<and> serialize (UserCreated (u\<lparr>created_at := t, updated_at := t', User_password := pw\<rparr>))
       = serialize (UserCreated u)
   \<and> serialize (ProfileCreated (p\<lparr>created_at := t, updated_at := t'\<rparr>))
       = serialize (ProfileCreated p)
   \<and> serialize (CommentCreated (c\<lparr>created_at := t, updated_at := t'\<rparr>))
       = serialize (CommentCreated c)"
proof (intro conjI impI)
  assume "User_round_trips u"
  from deserialize_User_response [OF this]
  show "\<exists>s. serialize (UserCreated u) = Returned s
          \<and> deserialize_User s = Some (User_username u, User_email u)"
    by simp
next
  assume "Profile_round_trips p"
  from deserialize_Profile_response [OF this]
  show "\<exists>s. serialize (ProfileCreated p) = Returned s
          \<and> deserialize_Profile s
             = Some ((User_username (Profile_user p), User_email (Profile_user p)),
                     Profile_first_name p, Profile_last_name p, Profile_bio p,
                     Profile_contact p)"
    by simp
next
  assume "Comment_round_trips c"
  from deserialize_Comment_response [OF this]
  show "\<exists>s. serialize (CommentCreated c) = Returned s
          \<and> deserialize_Comment s
             = Some ((User_username (Comment_user c), User_email (Comment_user c)),
                     Comment_content c)"
    by simp
next
  show "serialize (UserCreated (u\<lparr>created_at := t, updated_at := t', User_password := pw\<rparr>))
       = serialize (UserCreated u)"
    by (cases u) (simp add: User_response_def User_data_def)
next
  show "serialize (ProfileCreated (p\<lparr>created_at := t, updated_at := t'\<rparr>))
       = serialize (ProfileCreated p)"
    by (cases p) (simp add: Profile_response_def Profile_data_def)
next
  show "serialize (CommentCreated (c\<lparr>created_at := t, updated_at := t'\<rparr>))
       = serialize (CommentCreated c)"
    by (cases c) (simp add: Comment_response_def Comment_data_def)
qed

theorem deserialize_serialize_witness:
  "User_round_trips (alice ''secret1'')
   \<and> Profile_round_trips the_profile
   \<and> Comment_round_trips the_comment
   \<and> (\<exists>s. serialize (UserCreated (alice ''secret1'')) = Returned s
          \<and> deserialize_User s = Some (str ''alice'', str ''a@x.com''))
   \<and> (\<exists>s. serialize (ProfileCreated the_profile) = Returned s
          \<and> deserialize_Profile s
             = Some ((str ''Abhijeet'', str ''abhijeetkumar3015@gmail''),
                     str ''Abhijeet'', str ''Kumar3015'', Some (str ''This is my bio''),
                     Some 7079840969))
   \<and> (\<exists>s. serialize (CommentCreated the_comment) = Returned s
          \<and> deserialize_Comment s
             = Some ((str ''Abhijeet'', str ''abhijeetkumar3015@gmail''),
                     str ''This is my comment''))"
proof -
  have u: "User_round_trips (alice ''secret1'')"
    by (simp add: User_round_trips_def alice_def User_init_def round_trips_str)
  have "length (dec_digits 7079840969) \<le> int_max_str_digits"
    by (simp add: dec_digits.simps int_max_str_digits_def)
  then have p: "Profile_round_trips the_profile"
    by (simp add: Profile_round_trips_def User_round_trips_def the_profile_def
        Profile_init_def the_user_def User_init_def round_trips_str can_be_written_def)
  have c: "Comment_round_trips the_comment"
    by (simp add: Comment_round_trips_def User_round_trips_def the_comment_def
        Comment_init_def the_user_def User_init_def round_trips_str)
  from deserialize_serialize_carried_fields
         [of "alice ''secret1''" the_profile the_comment] u p c
  show ?thesis
    by (simp add: alice_def the_profile_def the_comment_def Profile_init_def
        Comment_init_def the_user_def User_init_def)
qed

section \<open>Mutation of constructed events\<close>

lemma after_call_User: "after_call (UserCreated x) m = UserCreated x"
  by (cases m) (simp_all add: after_call_def)

lemma after_call_Profile: "after_call (ProfileCreated x) m = ProfileCreated x"
  by (cases m) (simp_all add: after_call_def)

lemma after_call_Comment: "after_call (CommentCreated x) m = CommentCreated x"
  by (cases m) (simp_all add: after_call_def)

lemma after_call_Post:
  "after_call (PostCreated x) m = PostCreated (x\<lparr>Post_liked := Post_liked x @ added_likes [m]\<rparr>)"
  by (cases m) (simp_all add: after_call_def add_like_def)

lemma run_calls_User: "run_calls (UserCreated x) calls = UserCreated x"
  by (induction calls) (simp_all add: run_calls_def after_call_User)

lemma run_calls_Profile: "run_calls (ProfileCreated x) calls = ProfileCreated x"
  by (induction calls) (simp_all add: run_calls_def after_call_Profile)

lemma run_calls_Comment: "run_calls (CommentCreated x) calls = CommentCreated x"
  by (induction calls) (simp_all add: run_calls_def after_call_Comment)

lemma added_likes_Cons: "added_likes (m # calls) = added_likes [m] @ added_likes calls"
  by (cases m) simp_all

lemma run_calls_Post:
  "run_calls (PostCreated x) calls =
   PostCreated (x\<lparr>Post_liked := Post_liked x @ added_likes calls\<rparr>)"
proof (induction calls arbitrary: x)
  case Nil
  show ?case by (simp add: run_calls_def)
next
  case (Cons m calls)
  have "run_calls (PostCreated x) (m # calls)
        = run_calls (PostCreated (x\<lparr>Post_liked := Post_liked x @ added_likes [m]\<rparr>)) calls"
    by (simp add: run_calls_def after_call_Post)
  also have "\<dots> = PostCreated (x\<lparr>Post_liked := Post_liked x @ added_likes (m # calls)\<rparr>)"
    by (simp add: Cons.IH added_likes_Cons [of m calls])
  finally show ?case .
qed

text \<open>
  C8, as the claim states it, fails: \<open>add_like\<close> changes a constructed post in place.
  The post the controller builds has no likes; after one \<open>add_like\<close> it has one, it is
  another value, and the dictionary that \<open>response\<close> builds for \<open>json.dumps\<close> has changed.
\<close>

theorem add_like_mutates_post:
  "get_like_count the_post = 0
   \<and> get_like_count (add_like the_post (alice ''secret1'')) = 1
   \<and> after_call (PostCreated the_post) (Call_add_like (alice ''secret1''))
       \<noteq> PostCreated the_post
   \<and> Post_data (add_like the_post (alice ''secret1'')) \<noteq> Post_data the_post"
  by (simp add: the_post_def Post_init_def get_like_count_def add_like_def Post_data_def
      after_call_def)

text \<open>
  C8, amended. The creation timestamp of a domain event is the clock reading its
  constructor took, and it is still that reading after any sequence of method calls on
  the event. A User, a Profile and a Comment are, after any sequence of method calls,
  exactly as they were. A Post changes in one way only: each \<open>add_like\<close> appends its
  argument to the list of likes, in place, so that \<open>get_like_count\<close> grows by one with
  each; its user, title, content and timestamps stay.
\<close>

theorem created_at_never_mutated:
  "event_created_at
     (run_calls (UserCreated (User_init c u username password email)) calls) = c
   \<and> event_created_at
       (run_calls (ProfileCreated (Profile_init c u user first_name last_name bio contact))
          calls) = c
   \<and> event_created_at
       (run_calls (PostCreated (Post_init c u user title content)) calls) = c
   \<and> event_created_at
       (run_calls (CommentCreated (Comment_init c u user content)) calls) = c
   \<and> run_calls (UserCreated x) calls = UserCreated x
   \<and> run_calls (ProfileCreated y) calls = ProfileCreated y
   \<and> run_calls (CommentCreated z) calls = CommentCreated z
   \<and> run_calls (PostCreated q) calls =
       PostCreated (q\<lparr>Post_liked := Post_liked q @ added_likes calls\<rparr>)
   \<and> get_like_count (q\<lparr>Post_liked := Post_liked q @ added_likes calls\<rparr>)
       = get_like_count q + length (added_likes calls)"
  by (simp add: run_calls_User run_calls_Profile run_calls_Comment run_calls_Post
      User_init_def Profile_init_def Post_init_def Comment_init_def get_like_count_def)

section \<open>The producer\<close>

lemma dumps_error_raises: "dumps_error e = Raised (not_serializable (class_name e))"
  by (simp add: dumps_error_def json_dumps_def)

text \<open>
  C3 at a failing input. The handler of \<open>push\<close> evaluates \<open>json.dumps({'error': e})\<close>,
  and an exception object has no JSON encoding: when the connection cannot be acquired,
  and likewise when the flush of \<open>__exit__\<close> fails, \<open>push\<close> does not return an error
  value but raises \<open>TypeError\<close> to its caller. (\<open>__exit__\<close> has been called in the second
  run, and there was nothing to release in the first.)
\<close>

theorem push_failure_raises_TypeError:
  "SendToKafka_push
     \<lparr>get_producer_raises = Some broker_down, produce_raises = None,
      producer_exit_raises = None\<rparr> ''posts'' (PStr (str ''x'')) PNone
   = ([GetProducer], Raised (not_serializable ''KafkaException''))
   \<and> SendToKafka_push
     \<lparr>get_producer_raises = None, produce_raises = None,
      producer_exit_raises = Some broker_down\<rparr> ''posts'' (PStr (str ''x'')) PNone
   = ([GetProducer, Produce ''posts'' PNone (PStr (str ''x'')), ProducerExit],
      Raised (not_serializable ''KafkaException''))"
  by (simp add: SendToKafka_push_def with_producer_def try_except_def isinstance_def
      broker_down_def dumps_error_raises class_name_def)

text \<open>
  C10 at a failing input. With the broker down, \<open>UserProduce.send_to_kafka\<close> does not
  return \<open>None\<close>: the \<open>TypeError\<close> that the handler of \<open>push\<close> raises passes through it
  to its caller.
\<close>

theorem send_to_kafka_failure_raises:
  "UserProduce_send_to_kafka
     \<lparr>get_producer_raises = Some broker_down, produce_raises = None,
      producer_exit_raises = None\<rparr> clock ''users'' PNone
   = ([GetProducer], Raised (not_serializable ''KafkaException''))"
  by (simp add: UserProduce_send_to_kafka_def push_statement_def UserProduce_create_user_def
      User_response_def User_data_def json_dumps_def returning_str_def
      SendToKafka_push_def with_producer_def try_except_def isinstance_def
      broker_down_def dumps_error_raises class_name_def)

text \<open>
  C9. \<open>PostProduce.create_post\<close> builds the post and returns \<open>None\<close>, whatever the clock
  reads. \<open>PostProduce.send_to_kafka\<close> is therefore \<open>push\<close> with the value \<open>None\<close>: once a
  producer has been acquired, the one message it hands to the broker has the value
  \<open>None\<close>, under the topic and key given.
\<close>

theorem create_post_returns_None:
  "PostProduce_create_post now = ([], Returned PNone)
   \<and> PostProduce_send_to_kafka env now topic key
       = (case SendToKafka_push env topic PNone key of
            (tr, Raised e) \<Rightarrow> (tr, Raised e)
          | (tr, Returned _) \<Rightarrow> (tr, Returned PNone))
   \<and> fst (PostProduce_send_to_kafka env now topic key)
       = (if get_producer_raises env = None
          then [GetProducer, Produce topic key PNone, ProducerExit]
          else [GetProducer])"
  by (simp add: PostProduce_create_post_def PostProduce_send_to_kafka_def push_statement_def
      try_except_def SendToKafka_push_def with_producer_def dumps_error_raises
      split: option.splits prod.splits result.splits)

section \<open>The consumer loop\<close>

text \<open>
  C1 at a failing input. On an empty poll the loop prints the waiting line and then still
  evaluates \<open>message.value()\<close> on \<open>None\<close>: the \<open>AttributeError\<close> is an \<open>Exception\<close>, the
  handler of the loop catches it and logs it as an error, as it does for a failed poll.
\<close>

theorem empty_poll_takes_error_path:
  "loop_body empty_poll
   = ([Poll 1, Print ''running consumer application.... '',
       Print ''Consumer is waiting for response : '',
       Print (''error: '' @ msg None_has_no_value @ '' ''), Sleep 10], None)
   \<and> isinstance None_has_no_value ''Exception''
   \<and> consumer_loop [empty_poll, empty_poll, empty_poll]
       = (fst (loop_body empty_poll) @ fst (loop_body empty_poll)
            @ fst (loop_body empty_poll), None)"
  by (simp add: empty_poll_def loop_body_def poll_and_print_def try_except_def
      isinstance_def None_has_no_value_def AttributeError_def)

text \<open>
  Cancellation: a \<open>KeyboardInterrupt\<close> is not an \<open>Exception\<close>, so neither handler catches
  it. Raised by the poll, it leaves the loop, the consumer is released, and it leaves
  \<open>setup_consumer\<close>.
\<close>

lemma keyboard_interrupt_ends_consumer:
  "setup_consumer healthy_consumer
     [\<lparr>polled = PollRaises KeyboardInterrupt, sleep_raises = None\<rparr>]
   = ([GetConsumer, Subscribe [''weather_data''], Poll 1, ConsumerExit],
      Some (Raised KeyboardInterrupt))"
  by (simp add: setup_consumer_def with_consumer_def healthy_consumer_def loop_body_def
      poll_and_print_def try_except_def isinstance_def KeyboardInterrupt_def)

lemma sleeps_append: "sleeps (xs @ ys) = sleeps xs @ sleeps ys"
  by (induction xs rule: sleeps.induct) simp_all

lemma error_cycle_loop_body:
  assumes "error_cycle c"
  shows "loop_body c =
    (Poll 1 #
      (case polled c of
         PollMessage _ \<Rightarrow> [Print ''running consumer application.... '']
       | _ \<Rightarrow> [])
      @ [Print (''error: '' @ msg (the (raised_error (polled c))) @ '' ''), Sleep 10],
     None)"
proof (cases "polled c")
  case (PollRaises e)
  with assms show ?thesis
    by (simp add: error_cycle_def loop_body_def poll_and_print_def try_except_def)
next
  case PollNone
  with assms show ?thesis by (simp add: error_cycle_def)
next
  case (PollMessage m)
  with assms show ?thesis
    by (cases m) (simp_all add: error_cycle_def loop_body_def poll_and_print_def try_except_def)
qed

lemma consumer_loop_errors:
  assumes "\<forall>c\<in>set cs. error_cycle c"
  shows "consumer_loop cs = (concat (map (\<lambda>c. fst (loop_body c)) cs), None)"
  using assms
proof (induction cs)
  case Nil
  show ?case by simp
next
  case (Cons c cs)
  then have "error_cycle c" by simp
  then have "snd (loop_body c) = None" by (simp add: error_cycle_loop_body)
  then obtain tr where "loop_body c = (tr, None)" by (cases "loop_body c") simp
  with Cons show ?case by simp
qed

lemma sleeps_errors:
  assumes "\<forall>c\<in>set cs. error_cycle c"
  shows "sleeps (concat (map (\<lambda>c. fst (loop_body c)) cs)) = replicate (length cs) 10"
  using assms
proof (induction cs)
  case Nil
  show ?case by simp
next
  case (Cons c cs)
  then have "error_cycle c" by simp
  then have "sleeps (fst (loop_body c)) = [10]"
    by (simp add: error_cycle_loop_body sleeps_append split: poll_outcome.splits)
  with Cons show ?case by (simp add: sleeps_append)
qed

text \<open>
  C4. Take any number of turns in each of which the poll, or the handling of the message
  polled, raises an \<open>Exception\<close>, with no cancellation. Then no exception leaves the loop:
  it is still polling after all of them. Each turn is one poll with timeout 1, the line
  that logs the error, and one sleep of 10; the next turn polls again. So the run
  sleeps exactly once per failure and always for 10, however many failures came before.
\<close>

theorem errors_back_off_and_loop_continues:
  assumes "\<forall>c\<in>set cs. error_cycle c"
  shows "snd (consumer_loop cs) = None
    \<and> fst (consumer_loop cs) = concat (map (\<lambda>c. fst (loop_body c)) cs)
    \<and> sleeps (fst (consumer_loop cs)) = replicate (length cs) 10
    \<and> (\<forall>c\<in>set cs. loop_body c =
          (Poll 1 #
            (case polled c of
               PollMessage _ \<Rightarrow> [Print ''running consumer application.... '']
             | _ \<Rightarrow> [])
            @ [Print (''error: '' @ msg (the (raised_error (polled c))) @ '' ''), Sleep 10],
           None))"
  using assms by (simp add: consumer_loop_errors sleeps_errors error_cycle_loop_body)

theorem errors_back_off_witness:
  "error_cycle \<lparr>polled = PollRaises broker_down, sleep_raises = None\<rparr>
   \<and> error_cycle \<lparr>polled = PollMessage (Inl decode_error), sleep_raises = None\<rparr>
   \<and> consumer_loop two_failures =
       ([Poll 1, Print ''error: broker down '', Sleep 10,
         Poll 1, Print ''running consumer application.... '',
         Print ''error: Expecting value '', Sleep 10], None)
   \<and> sleeps (fst (consumer_loop two_failures)) = [10, 10]"
  using errors_back_off_and_loop_continues [of two_failures]
  by (simp add: two_failures_def error_cycle_def isinstance_def broker_down_def
      decode_error_def loop_body_def poll_and_print_def try_except_def)

text \<open>
  C5, as the claim states it, fails: when \<open>subscribe\<close> raises, the outer handler prints
  the cause and \<open>setup_consumer\<close> returns, so the module body ends and the process exits
  with status 0.
\<close>

theorem subscribe_failure_exits_zero:
  "setup_consumer
     \<lparr>get_consumer_raises = None, subscribe_raises = Some broker_down,
      consumer_exit_raises = None\<rparr> []
   = ([GetConsumer, Subscribe [''weather_data''], ConsumerExit,
       Print ''error :  broker down''], Some (Returned PNone))
   \<and> exit_status (Returned PNone) = Some 0"
  by (simp add: setup_consumer_def with_consumer_def try_except_def isinstance_def
      broker_down_def exit_status_def)

text \<open>
  C5, amended. If \<open>subscribe\<close> raises an \<open>Exception\<close> at startup (and the release of the
  consumer succeeds), the consumer ends there, whatever the broker would have delivered:
  one call of \<open>subscribe\<close>, no poll and no sleep, the release of the consumer, one line
  that logs the cause; \<open>setup_consumer\<close> then returns and the process exits with status 0.
\<close>

theorem subscribe_failure_logged_and_returns:
  assumes "get_consumer_raises env = None"
    and "subscribe_raises env = Some e"
    and "consumer_exit_raises env = None"
    and "isinstance e ''Exception''"
  shows "setup_consumer env cs
         = ([GetConsumer, Subscribe [''weather_data''], ConsumerExit,
             Print (''error : '' @ '' '' @ msg e)], Some (Returned PNone))
         \<and> map_option exit_status (snd (setup_consumer env cs)) = Some (Some 0)"
  using assms
  by (simp add: setup_consumer_def with_consumer_def try_except_def exit_status_def)

theorem subscribe_failure_witness:
  "get_consumer_raises subscribe_fails = None
   \<and> subscribe_raises subscribe_fails = Some broker_down
   \<and> consumer_exit_raises subscribe_fails = None
   \<and> isinstance broker_down ''Exception''
   \<and> setup_consumer subscribe_fails two_failures
       = ([GetConsumer, Subscribe [''weather_data''], ConsumerExit,
           Print ''error :  broker down''], Some (Returned PNone))"
  using subscribe_failure_logged_and_returns [of subscribe_fails broker_down two_failures]
  by (simp add: subscribe_fails_def isinstance_def broker_down_def)

section \<open>The weather fetch\<close>

text \<open>
  C6, as the claim states it, fails: \<open>get_weather\<close> catches \<open>RequestException\<close> only. When
  decoding the body raises a \<open>ValueError\<close> that is not one, the error is raised to the
  caller, not returned.
\<close>

theorem get_weather_raises_other_errors:
  "get_weather (Inr (Response (Inl decode_error))) = ([], Raised decode_error)"
  by (simp add: get_weather_def try_except_def isinstance_def decode_error_def)

text \<open>
  C6, amended. Whether the request or the decoding of its body fails: a failure that is a
  \<open>RequestException\<close> is returned to the caller as a value, the exception object itself;
  any other exception is raised to the caller; and when both steps succeed the payload
  is returned. No failure is swallowed.
\<close>

theorem get_weather_returns_request_errors:
  "get_weather (Inl e)
     = ([], if isinstance e ''RequestException'' then Returned (PExc e) else Raised e)
   \<and> get_weather (Inr (Response (Inl e)))
     = ([], if isinstance e ''RequestException'' then Returned (PExc e) else Raised e)
   \<and> get_weather (Inr (Response (Inr payload))) = ([], Returned payload)"
  by (simp add: get_weather_def try_except_def)

end
